theory Spec2Isabelle
  imports Main "HOL-Library.Multiset" "HOL-Library.Sublist"
begin

section \<open>Data model\<close>

text \<open>
  The pipeline of \<^verbatim>\<open>advance_etl.py\<close> works on pandas data frames. A frame is modelled
  as the list of its rows, in order; a cell that pandas holds as NaN (a missing value) is
  \<open>None\<close>. The columns \<^verbatim>\<open>customer_name\<close> and \<^verbatim>\<open>price\<close> may hold missing values; the other
  columns are required. Numeric cells are whole numbers; prices with a fractional part
  are outside the model. Row labels play no role (the frame comes from \<^verbatim>\<open>read_csv\<close>, which
  numbers the rows from 0) and are left out.
\<close>

record row =
  order_id :: int
  customer_name :: "string option"
  product :: string
  category :: string
  price :: "int option"
  quantity :: int
  transaction_date :: string

type_synonym dataframe = "row list"

text \<open>
  A pandas column has one dtype, which pandas infers from the values when it builds the
  frame. For whole numbers: a column whose values all lie in the \<^verbatim>\<open>int64\<close> range is an
  \<^verbatim>\<open>int64\<close> column; a column of values from 0 to \<open>2^64 - 1\<close>, one of them beyond the
  \<^verbatim>\<open>int64\<close> range, is a \<^verbatim>\<open>uint64\<close> column; a column with a value that no 64-bit type
  holds, or with a negative value beside one beyond the \<^verbatim>\<open>int64\<close> range, is an
  \<^verbatim>\<open>object\<close> column that keeps Python's unbounded integers. With a missing value a
  numeric column is a \<^verbatim>\<open>float64\<close> column. The inference reads the column from the top, and
  only the integers it meets before the first missing value can make it give up and
  keep the objects. The last kind, an \<^verbatim>\<open>object\<close> column of Python floats, only arises as
  the product of a \<^verbatim>\<open>float64\<close> column and an \<^verbatim>\<open>object\<close> column.
\<close>

datatype dtype = Int64 | UInt64 | Float64 | PyInts | PyFloats

definition in_int64 :: "int \<Rightarrow> bool" where
  "in_int64 x = (- (2 ^ 63) \<le> x \<and> x < 2 ^ 63)"

fun leading_values :: "'a option list \<Rightarrow> 'a list" where
  "leading_values [] = []"
| "leading_values (None # cs) = []"
| "leading_values (Some v # cs) = v # leading_values cs"

definition python_ints :: "int list \<Rightarrow> bool" where
  "python_ints vs =
     (list_ex (\<lambda>v. v < - (2 ^ 63) \<or> 2 ^ 64 \<le> v) vs
      \<or> (list_ex (\<lambda>v. v < 0) vs \<and> list_ex (\<lambda>v. 2 ^ 63 \<le> v) vs))"

definition int_dtype :: "int list \<Rightarrow> dtype" where
  "int_dtype vs =
     (if python_ints vs then PyInts
      else if list_ex (\<lambda>v. 2 ^ 63 \<le> v) vs then UInt64
      else Int64)"

definition price_dtype :: "dataframe \<Rightarrow> dtype" where
  "price_dtype df =
     (if python_ints (leading_values (map price df)) then PyInts
      else if list_ex (\<lambda>r. price r = None) df then Float64
      else int_dtype (leading_values (map price df)))"

definition quantity_dtype :: "dataframe \<Rightarrow> dtype" where
  "quantity_dtype df = int_dtype (map quantity df)"

text \<open>
  The dtype of the product of the price column (first) and the quantity column, by
  numpy's promotion: two columns of the same integer dtype keep it; \<^verbatim>\<open>int64\<close> with
  \<^verbatim>\<open>uint64\<close> gives \<^verbatim>\<open>float64\<close>, as does \<^verbatim>\<open>float64\<close> with either; anything with an
  \<^verbatim>\<open>object\<close> column gives an \<^verbatim>\<open>object\<close> column, whose cells Python computes one by one:
  integers when the prices are integers, floats when the prices are floats.
\<close>

definition result_dtype :: "dtype \<Rightarrow> dtype \<Rightarrow> dtype" where
  "result_dtype p q =
     (if p = PyInts then PyInts
      else if q = PyInts then (if p = Float64 then PyFloats else PyInts)
      else if p = Float64 then Float64
      else if p = q then p
      else Float64)"

definition total_dtype :: "dataframe \<Rightarrow> dtype" where
  "total_dtype df = result_dtype (price_dtype df) (quantity_dtype df)"

text \<open>Arithmetic on \<^verbatim>\<open>int64\<close> columns is numpy's: it wraps silently modulo \<open>2^64\<close>.\<close>

definition int64 :: "int \<Rightarrow> int" where
  "int64 x = (x + 2 ^ 63) mod 2 ^ 64 - 2 ^ 63"

text \<open>
  A whole number as an IEEE double: rounded to 53 significant bits, ties to the even
  neighbour. Below \<open>2^53\<close> in absolute value nothing is lost. \<open>bit_length\<close> is the
  number of binary digits.
\<close>

function bit_length :: "int \<Rightarrow> nat" where
  "bit_length n = (if n \<le> 0 then 0 else Suc (bit_length (n div 2)))"
  by pat_completeness auto
termination
  by (relation "measure nat") auto

definition round_double :: "int \<Rightarrow> int" where
  "round_double x =
     (let a = \<bar>x\<bar>
      in if a < 2 ^ 53 then x
         else
           let m = 2 ^ (bit_length a - 53);
               t = a div m;
               r = a mod m;
               u = (if m < 2 * r \<or> (2 * r = m \<and> odd t) then t + 1 else t)
           in sgn x * (u * m))"

text \<open>
  A cell of the derived column \<^verbatim>\<open>total_amount\<close>: an \<^verbatim>\<open>int64\<close> or \<^verbatim>\<open>uint64\<close> value, a
  double (a whole number, an infinity, or the missing value NaN), or a Python integer.
\<close>

datatype amount = I64 int | U64 int | F64 int | PosInf | NegInf | NaN | PyInt int

text \<open>A rounded result of \<open>2^1024\<close> or more in absolute value is an infinity.\<close>

definition double_of_int :: "int \<Rightarrow> amount" where
  "double_of_int x =
     (let r = round_double x
      in if 2 ^ 1024 \<le> r then PosInf else if r \<le> - (2 ^ 1024) then NegInf else F64 r)"

text \<open>
  The product of two whole numbers as doubles: both are converted, and the exact
  product of the two doubles is rounded once. A first factor too large for a double
  stands for an infinite cell.
\<close>

definition mul_double :: "int \<Rightarrow> int \<Rightarrow> amount" where
  "mul_double v q =
     (let a = round_double v; b = round_double q
      in if 2 ^ 1024 \<le> \<bar>a\<bar>
         then (if b = 0 then NaN else if (0 < a) = (0 < b) then PosInf else NegInf)
         else double_of_int (a * b))"

record clean_row =
  src :: row
  total_amount :: amount

type_synonym key = "string \<times> string \<times> int option"

definition row_key :: "row \<Rightarrow> key" where
  "row_key r = (product r, category r, price r)"

record dim_row =
  d_product :: string
  d_category :: string
  d_price :: "int option"
  product_id :: int

definition dim_key :: "dim_row \<Rightarrow> key" where
  "dim_key d = (d_product d, d_category d, d_price d)"

record fact_row =
  f_order_id :: int
  f_transaction_date :: string
  f_customer_name :: "string option"
  f_product_id :: "int option"
  f_quantity :: int
  f_total_amount :: amount

section \<open>The world outside: files, tables, log\<close>

text \<open>
  One constructor for each logging call of the source; the counts are those of its
  f-strings.
\<close>

datatype log_entry =
    InfoGenerated
  | InfoExtractStart
  | InfoExtracted nat
  | ErrorExtractionFailed
  | InfoTransformStart
  | WarningQuarantined nat
  | InfoTransformed nat
  | InfoLoadStart
  | InfoLoadedDim
  | InfoLoadedFact
  | InfoCompleted
  | ErrorLoadingFailed

text \<open>The input and output operations the run attempts, in the order it attempts them.\<close>

datatype io_op =
    WriteRaw | ReadRaw | WriteQuarantine | Connect | WriteDim | WriteFact | CloseConn
  | ReportConnect | ReportQuery | ReportClose

text \<open>What the script prints: the heading of the report and the report itself.\<close>

datatype printed = ReportHeading | ReportTable

record world =
  raw_file :: "dataframe option"
  quarantine_file :: "dataframe option"
  dim_table :: "dim_row list option"
  fact_table :: "fact_row list option"
  log :: "log_entry list"
  io :: "io_op list"
  stdout :: "printed list"

text \<open>
  Whether each operation on the outside succeeds is not decided by the program: it is
  an input of the model. So is the state in which a failed write leaves its target: a
  file may be left as it was, truncated or half written, and \<^verbatim>\<open>to_sql\<close> with
  \<^verbatim>\<open>if_exists='replace'\<close> drops the old table before it inserts, so that a failure may
  leave the old table, no table or an empty one.
\<close>

record env =
  raw_write_ok :: bool
  read_ok :: bool
  quarantine_write_ok :: bool
  connect_ok :: bool
  dim_write_ok :: bool
  fact_write_ok :: bool
  report_connect_ok :: bool
  report_query_ok :: bool
  raw_left :: "dataframe option \<Rightarrow> dataframe option"
  quarantine_left :: "dataframe option \<Rightarrow> dataframe option"
  dim_left :: "dim_row list option \<Rightarrow> dim_row list option"
  fact_left :: "fact_row list option \<Rightarrow> fact_row list option"

datatype error =
    RawWriteError | SourceReadError | QuarantineWriteError | StorageWriteError
  | OverflowError | ReportConnectError | ReportQueryError

definition logging :: "log_entry \<Rightarrow> world \<Rightarrow> world" where
  "logging e w = w\<lparr>log := log w @ [e]\<rparr>"

definition attempt :: "io_op \<Rightarrow> world \<Rightarrow> world" where
  "attempt p w = w\<lparr>io := io w @ [p]\<rparr>"

definition print :: "printed \<Rightarrow> world \<Rightarrow> world" where
  "print x w = w\<lparr>stdout := stdout w @ [x]\<rparr>"

section \<open>Column operations of pandas\<close>

definition isnull :: "'a option list \<Rightarrow> bool list" where
  "isnull col = map (\<lambda>c. c = None) col"

text \<open>Comparing a missing value with a number is false.\<close>

definition le_zero :: "int option list \<Rightarrow> bool list" where
  "le_zero col = map (\<lambda>c. case c of None \<Rightarrow> False | Some v \<Rightarrow> v \<le> 0) col"

definition or_mask :: "bool list \<Rightarrow> bool list \<Rightarrow> bool list" where
  "or_mask a b = map (\<lambda>(x, y). x \<or> y) (zip a b)"

definition not_mask :: "bool list \<Rightarrow> bool list" where
  "not_mask m = map Not m"

text \<open>\<^verbatim>\<open>df[mask]\<close>: the rows at which the mask is true, in order.\<close>

definition bool_index :: "'a list \<Rightarrow> bool list \<Rightarrow> 'a list" where
  "bool_index xs m = map fst (filter snd (zip xs m))"

text \<open>
  \<^verbatim>\<open>duplicated\<close> (keep first) walks the rows with a table of the rows seen so far; a
  row is marked when it is already in the table. Missing values count as equal to each
  other, as equality on \<open>option\<close> has it.
\<close>

fun duplicated :: "'a list \<Rightarrow> 'a list \<Rightarrow> bool list" where
  "duplicated seen [] = []"
| "duplicated seen (x # xs) = (x \<in> set seen) # duplicated (x # seen) xs"

definition drop_duplicates :: "'a list \<Rightarrow> 'a list" where
  "drop_duplicates xs = bool_index xs (not_mask (duplicated [] xs))"

text \<open>
  The product of the \<^verbatim>\<open>price\<close> and \<^verbatim>\<open>quantity\<close> cells of one row, in the dtype of the
  product column.
\<close>

definition mul_cells :: "dtype \<Rightarrow> int option \<Rightarrow> int \<Rightarrow> amount" where
  "mul_cells dt p q =
     (case p of
        None \<Rightarrow> NaN
      | Some v \<Rightarrow>
          (case dt of
             Int64 \<Rightarrow> I64 (int64 (v * q))
           | UInt64 \<Rightarrow> U64 ((v * q) mod 2 ^ 64)
           | Float64 \<Rightarrow> mul_double v q
           | PyInts \<Rightarrow> PyInt (v * q)
           | PyFloats \<Rightarrow> mul_double v q))"

text \<open>
  Python converts an integer to a float before it multiplies it with a float, and raises
  \<^verbatim>\<open>OverflowError\<close> when the integer is too large for a double. This is the one case in
  which the product of the two columns raises: a \<^verbatim>\<open>float64\<close> price column with an
  \<^verbatim>\<open>object\<close> quantity column.
\<close>

definition product_raises :: "dtype \<Rightarrow> dataframe \<Rightarrow> bool" where
  "product_raises dt clean =
     (dt = PyFloats \<and> list_ex (\<lambda>r. 2 ^ 1024 \<le> \<bar>round_double (quantity r)\<bar>) clean)"

text \<open>
  \<^verbatim>\<open>left.merge(right, on=[product, category, price], how='left')\<close>: each left row, in
  order, once for every right row with the same key, in the right frame's order; a left
  row without a match is kept once with a missing \<^verbatim>\<open>product_id\<close>. Missing key cells match
  each other.
\<close>

definition merge_left :: "clean_row list \<Rightarrow> dim_row list \<Rightarrow> (clean_row \<times> int option) list" where
  "merge_left left right =
     concat (map (\<lambda>l.
       let ms = filter (\<lambda>d. dim_key d = row_key (src l)) right
       in if ms = [] then [(l, None)] else map (\<lambda>d. (l, Some (product_id d))) ms) left)"

section \<open>The transform-and-model stage\<close>

definition bad_data_mask :: "dataframe \<Rightarrow> bool list" where
  "bad_data_mask df = or_mask (isnull (map customer_name df)) (le_zero (map price df))"

definition df_quarantine :: "dataframe \<Rightarrow> dataframe" where
  "df_quarantine df = bool_index df (bad_data_mask df)"

definition df_clean :: "dataframe \<Rightarrow> dataframe" where
  "df_clean df = bool_index df (not_mask (bad_data_mask df))"

text \<open>
  Line 65: the clean frame with its new column. The clean frame has the dtypes of the
  frame it was cut from, so the dtype of the new column is that of the product of the
  whole frame's price and quantity columns.
\<close>

definition with_total_amount :: "dtype \<Rightarrow> dataframe \<Rightarrow> clean_row list" where
  "with_total_amount dt clean =
     map (\<lambda>r. \<lparr>src = r, total_amount = mul_cells dt (price r) (quantity r)\<rparr>) clean"

text \<open>Lines 71 to 73: project, drop duplicates, renumber from 0, key = index + 1.\<close>

definition dim_product :: "clean_row list \<Rightarrow> dim_row list" where
  "dim_product clean =
     map (\<lambda>(i, (p, c, v)). \<lparr>d_product = p, d_category = c, d_price = v, product_id = int i + 1\<rparr>)
       (enumerate 0 (drop_duplicates (map (\<lambda>c. row_key (src c)) clean)))"

text \<open>Lines 77 to 80: the left join, then the projection to the fact schema.\<close>

definition fact_sales :: "clean_row list \<Rightarrow> dim_row list \<Rightarrow> fact_row list" where
  "fact_sales clean dim =
     map (\<lambda>(l, pid). \<lparr>f_order_id = order_id (src l),
                      f_transaction_date = transaction_date (src l),
                      f_customer_name = customer_name (src l),
                      f_product_id = pid,
                      f_quantity = quantity (src l),
                      f_total_amount = total_amount l\<rparr>)
       (merge_left clean dim)"

text \<open>\<^verbatim>\<open>to_csv(QUARANTINE_FILE)\<close>; a failure is an exception, which nothing here catches.\<close>

definition to_csv_quarantine :: "env \<Rightarrow> dataframe \<Rightarrow> world \<Rightarrow> world \<times> (error + unit)" where
  "to_csv_quarantine e d w =
     (let w1 = attempt WriteQuarantine w
      in if quarantine_write_ok e
         then (logging (WarningQuarantined (length d)) (w1\<lparr>quarantine_file := Some d\<rparr>), Inr ())
         else (w1\<lparr>quarantine_file := quarantine_left e (quarantine_file w1)\<rparr>,
               Inl QuarantineWriteError))"

definition transform_and_model_data ::
  "env \<Rightarrow> world \<Rightarrow> dataframe \<Rightarrow> world \<times> (error + dim_row list \<times> fact_row list)" where
  "transform_and_model_data e w df =
     (let w1 = logging InfoTransformStart w;
          (w2, saved) = (if df_quarantine df \<noteq> [] then to_csv_quarantine e (df_quarantine df) w1
                         else (w1, Inr ()))
      in case saved of
           Inl err \<Rightarrow> (w2, Inl err)
         | Inr _ \<Rightarrow>
             if product_raises (total_dtype df) (df_clean df) then (w2, Inl OverflowError)
             else
               let clean = with_total_amount (total_dtype df) (df_clean df);
                   dim = dim_product clean;
                   fact_df = fact_sales clean dim
               in (logging (InfoTransformed (length fact_df)) w2, Inr (dim, fact_df)))"

section \<open>Extraction, loading and the run\<close>

definition raw_data :: dataframe where
  "raw_data =
    [\<lparr>order_id = 101, customer_name = Some ''Alice'', product = ''Laptop'',
      category = ''Electronics'', price = Some 1200, quantity = 1,
      transaction_date = ''2023-10-01''\<rparr>,
     \<lparr>order_id = 102, customer_name = Some ''Bob'', product = ''Mouse'',
      category = ''Accessories'', price = Some 25, quantity = 2,
      transaction_date = ''2023-10-01''\<rparr>,
     \<lparr>order_id = 103, customer_name = Some ''Charlie'', product = ''Keyboard'',
      category = ''Accessories'', price = Some (- 50), quantity = 1,
      transaction_date = ''2023-10-01''\<rparr>,
     \<lparr>order_id = 104, customer_name = Some ''David'', product = ''Monitor'',
      category = ''Electronics'', price = Some 300, quantity = 2,
      transaction_date = ''2023-10-02''\<rparr>,
     \<lparr>order_id = 105, customer_name = None, product = ''Mouse'',
      category = ''Accessories'', price = Some 25, quantity = 5,
      transaction_date = ''2023-10-02''\<rparr>,
     \<lparr>order_id = 106, customer_name = Some ''Frank'', product = ''Laptop'',
      category = ''Electronics'', price = Some 1200, quantity = 1,
      transaction_date = ''2023-10-02''\<rparr>]"

definition generate_dummy_data :: "env \<Rightarrow> world \<Rightarrow> world \<times> (error + unit)" where
  "generate_dummy_data e w =
     (let w1 = attempt WriteRaw w
      in if raw_write_ok e
         then (logging InfoGenerated (w1\<lparr>raw_file := Some raw_data\<rparr>), Inr ())
         else (w1\<lparr>raw_file := raw_left e (raw_file w1)\<rparr>, Inl RawWriteError))"

text \<open>
  \<^verbatim>\<open>extract_data\<close> catches every exception of the read, logs it and returns Python's
  \<^verbatim>\<open>None\<close>.
\<close>

definition read_csv :: "env \<Rightarrow> world \<Rightarrow> error + dataframe" where
  "read_csv e w =
     (if read_ok e then (case raw_file w of None \<Rightarrow> Inl SourceReadError | Some df \<Rightarrow> Inr df)
      else Inl SourceReadError)"

definition extract_data :: "env \<Rightarrow> world \<Rightarrow> world \<times> dataframe option" where
  "extract_data e w =
     (let w1 = attempt ReadRaw (logging InfoExtractStart w)
      in case read_csv e w1 of
           Inr df \<Rightarrow> (logging (InfoExtracted (length df)) w1, Some df)
         | Inl err \<Rightarrow> (logging ErrorExtractionFailed w1, None))"

text \<open>The body of the \<^verbatim>\<open>try\<close> block of \<^verbatim>\<open>load_data\<close>: it stops at the first failure.\<close>

definition load_body ::
  "env \<Rightarrow> world \<Rightarrow> dim_row list \<Rightarrow> fact_row list \<Rightarrow> world \<times> (error + unit)" where
  "load_body e w dim_df fact_df =
     (let w1 = attempt Connect w
      in if \<not> connect_ok e then (w1, Inl StorageWriteError)
         else
           let w2 = attempt WriteDim w1
           in if \<not> dim_write_ok e
              then (w2\<lparr>dim_table := dim_left e (dim_table w2)\<rparr>, Inl StorageWriteError)
              else
                let w3 = logging InfoLoadedDim (w2\<lparr>dim_table := Some dim_df\<rparr>);
                    w4 = attempt WriteFact w3
                in if \<not> fact_write_ok e
                   then (w4\<lparr>fact_table := fact_left e (fact_table w4)\<rparr>, Inl StorageWriteError)
                   else
                     let w5 = logging InfoLoadedFact (w4\<lparr>fact_table := Some fact_df\<rparr>);
                         w6 = attempt CloseConn w5
                     in (logging InfoCompleted w6, Inr ()))"

text \<open>
  \<^verbatim>\<open>load_data\<close>: the \<^verbatim>\<open>except Exception\<close> clause logs the failure, and the function
  returns normally in both cases.
\<close>

definition load_data ::
  "env \<Rightarrow> world \<Rightarrow> dim_row list \<Rightarrow> fact_row list \<Rightarrow> world \<times> (error + unit)" where
  "load_data e w dim_df fact_df =
     (case load_body e (logging InfoLoadStart w) dim_df fact_df of
        (w1, Inl err) \<Rightarrow> (logging ErrorLoadingFailed w1, Inr ())
      | (w1, Inr u) \<Rightarrow> (w1, Inr ()))"

text \<open>
  Lines 113 to 123: the report query. Nothing guards it: it prints its heading, connects
  again, runs the query, prints the result and closes. The query raises when it cannot
  be run, and in particular when one of the two tables does not exist. What the report
  shows is computed inside the database and is not modelled.
\<close>

definition report :: "env \<Rightarrow> world \<Rightarrow> world \<times> (error + unit)" where
  "report e w =
     (let w1 = attempt ReportConnect (print ReportHeading w)
      in if \<not> report_connect_ok e then (w1, Inl ReportConnectError)
         else
           let w2 = attempt ReportQuery w1
           in if \<not> report_query_ok e \<or> dim_table w2 = None \<or> fact_table w2 = None
              then (w2, Inl ReportQueryError)
              else (attempt ReportClose (print ReportTable w2), Inr ()))"

text \<open>The script's main block.\<close>

definition main :: "env \<Rightarrow> world \<Rightarrow> world \<times> (error + unit)" where
  "main e w =
     (case generate_dummy_data e w of
        (w1, Inl err) \<Rightarrow> (w1, Inl err)
      | (w1, Inr _) \<Rightarrow>
          (case extract_data e w1 of
             (w2, None) \<Rightarrow> (w2, Inr ())
           | (w2, Some df_raw) \<Rightarrow>
               (case transform_and_model_data e w2 df_raw of
                  (w3, Inl err) \<Rightarrow> (w3, Inl err)
                | (w3, Inr (dim_df, fact_df)) \<Rightarrow>
                    (case load_data e w3 dim_df fact_df of
                       (w4, Inl err) \<Rightarrow> (w4, Inl err)
                     | (w4, Inr _) \<Rightarrow> report e w4))))"

section \<open>Notions used to state and prove the properties\<close>

text \<open>The position of the first occurrence of a value in a list.\<close>

fun first_index :: "'a list \<Rightarrow> 'a \<Rightarrow> nat" where
  "first_index [] y = 0"
| "first_index (x # xs) y = (if x = y then 0 else Suc (first_index xs y))"

text \<open>The dimension row a clean row joins with, when there is exactly one.\<close>

definition match :: "dim_row list \<Rightarrow> clean_row \<Rightarrow> dim_row" where
  "match dim l = hd (filter (\<lambda>d. dim_key d = row_key (src l)) dim)"

text \<open>
  A small batch with a zero price, a missing price, a missing customer name and a
  repeated product.
\<close>

definition sample :: dataframe where
  "sample =
    [\<lparr>order_id = 1, customer_name = Some ''Ann'', product = ''Pen'', category = ''Office'',
      price = Some 3, quantity = 2, transaction_date = ''2024-01-01''\<rparr>,
     \<lparr>order_id = 2, customer_name = Some ''Bob'', product = ''Pen'', category = ''Office'',
      price = Some 0, quantity = 1, transaction_date = ''2024-01-01''\<rparr>,
     \<lparr>order_id = 3, customer_name = Some ''Cy'', product = ''Ink'', category = ''Office'',
      price = None, quantity = 4, transaction_date = ''2024-01-02''\<rparr>,
     \<lparr>order_id = 4, customer_name = None, product = ''Pen'', category = ''Office'',
      price = Some 3, quantity = 1, transaction_date = ''2024-01-02''\<rparr>,
     \<lparr>order_id = 5, customer_name = Some ''Di'', product = ''Pen'', category = ''Office'',
      price = Some 3, quantity = 5, transaction_date = ''2024-01-03''\<rparr>]"

text \<open>What the transform stage returns on the sample batch.\<close>

definition sample_dim :: "dim_row list" where
  "sample_dim =
    [\<lparr>d_product = ''Pen'', d_category = ''Office'', d_price = Some 3, product_id = 1\<rparr>,
     \<lparr>d_product = ''Ink'', d_category = ''Office'', d_price = None, product_id = 2\<rparr>]"

definition sample_fact :: "fact_row list" where
  "sample_fact =
    [\<lparr>f_order_id = 1, f_transaction_date = ''2024-01-01'', f_customer_name = Some ''Ann'',
      f_product_id = Some 1, f_quantity = 2, f_total_amount = F64 6\<rparr>,
     \<lparr>f_order_id = 3, f_transaction_date = ''2024-01-02'', f_customer_name = Some ''Cy'',
      f_product_id = Some 2, f_quantity = 4, f_total_amount = NaN\<rparr>,
     \<lparr>f_order_id = 5, f_transaction_date = ''2024-01-03'', f_customer_name = Some ''Di'',
      f_product_id = Some 1, f_quantity = 5, f_total_amount = F64 15\<rparr>]"

text \<open>Outcomes of the outside world, and worlds, used in the examples.\<close>

definition all_ok :: env where
  "all_ok = \<lparr>raw_write_ok = True, read_ok = True, quarantine_write_ok = True,
             connect_ok = True, dim_write_ok = True, fact_write_ok = True,
             report_connect_ok = True, report_query_ok = True,
             raw_left = (\<lambda>t. t), quarantine_left = (\<lambda>t. t),
             dim_left = (\<lambda>t. t), fact_left = (\<lambda>t. t)\<rparr>"

definition read_fails :: env where
  "read_fails = all_ok\<lparr>read_ok := False\<rparr>"

definition quarantine_fails :: env where
  "quarantine_fails = all_ok\<lparr>quarantine_write_ok := False\<rparr>"

definition fact_fails :: env where
  "fact_fails = all_ok\<lparr>fact_write_ok := False, fact_left := (\<lambda>t. None)\<rparr>"

definition dim_fails :: env where
  "dim_fails = all_ok\<lparr>dim_write_ok := False\<rparr>"

definition empty_world :: world where
  "empty_world = \<lparr>raw_file = None, quarantine_file = None, dim_table = None,
                  fact_table = None, log = [], io = [], stdout = []\<rparr>"

text \<open>What the transform stage returns on the script's own dummy data.\<close>

definition raw_dim :: "dim_row list" where
  "raw_dim =
    [\<lparr>d_product = ''Laptop'', d_category = ''Electronics'', d_price = Some 1200, product_id = 1\<rparr>,
     \<lparr>d_product = ''Mouse'', d_category = ''Accessories'', d_price = Some 25, product_id = 2\<rparr>,
     \<lparr>d_product = ''Monitor'', d_category = ''Electronics'', d_price = Some 300, product_id = 3\<rparr>]"

definition raw_fact :: "fact_row list" where
  "raw_fact =
    [\<lparr>f_order_id = 101, f_transaction_date = ''2023-10-01'', f_customer_name = Some ''Alice'',
      f_product_id = Some 1, f_quantity = 1, f_total_amount = I64 1200\<rparr>,
     \<lparr>f_order_id = 102, f_transaction_date = ''2023-10-01'', f_customer_name = Some ''Bob'',
      f_product_id = Some 2, f_quantity = 2, f_total_amount = I64 50\<rparr>,
     \<lparr>f_order_id = 104, f_transaction_date = ''2023-10-02'', f_customer_name = Some ''David'',
      f_product_id = Some 3, f_quantity = 2, f_total_amount = I64 600\<rparr>,
     \<lparr>f_order_id = 106, f_transaction_date = ''2023-10-02'', f_customer_name = Some ''Frank'',
      f_product_id = Some 1, f_quantity = 1, f_total_amount = I64 1200\<rparr>]"

text \<open>A world that already holds the tables of an earlier run.\<close>

definition stale_world :: world where
  "stale_world = empty_world\<lparr>quarantine_file := Some [], dim_table := Some raw_dim,
                              fact_table := Some []\<rparr>"

text \<open>One record whose price times quantity is \<open>2^64\<close>.\<close>

definition big_batch :: dataframe where
  "big_batch =
    [\<lparr>order_id = 1, customer_name = Some ''Ann'', product = ''Pen'', category = ''Office'',
      price = Some 4611686018427387904, quantity = 4, transaction_date = ''2024-01-01''\<rparr>]"

section \<open>Auxiliary facts\<close>

subsection \<open>Masks and boolean indexing\<close>

lemma bool_index_map: "bool_index xs (map P xs) = filter P xs"
  by (induction xs) (simp_all add: bool_index_def)

lemma bad_data_mask_map:
  "bad_data_mask df = map (\<lambda>r. customer_name r = None \<or> (\<exists>p. price r = Some p \<and> p \<le> 0)) df"
  by (induction df) (auto simp: bad_data_mask_def or_mask_def isnull_def le_zero_def split: option.splits)

lemma df_quarantine_filter:
  "df_quarantine df = filter (\<lambda>r. customer_name r = None \<or> (\<exists>p. price r = Some p \<and> p \<le> 0)) df"
  by (simp add: df_quarantine_def bad_data_mask_map bool_index_map)

lemma df_clean_filter:
  "df_clean df = filter (\<lambda>r. \<not> (customer_name r = None \<or> (\<exists>p. price r = Some p \<and> p \<le> 0))) df"
proof -
  have "not_mask (bad_data_mask df) =
        map (\<lambda>r. \<not> (customer_name r = None \<or> (\<exists>p. price r = Some p \<and> p \<le> 0))) df"
    unfolding not_mask_def bad_data_mask_map by (simp add: comp_def)
  then show ?thesis
    unfolding df_clean_def by (simp only: bool_index_map)
qed

lemma bool_index_nths: "length m = length xs \<Longrightarrow> bool_index xs m = nths xs {i. i < length m \<and> m ! i}"
proof (induction xs arbitrary: m)
  case Nil
  then show ?case by (simp add: bool_index_def)
next
  case (Cons x xs)
  then obtain b bs where m: "m = b # bs" by (cases m) auto
  with Cons have IH: "bool_index xs bs = nths xs {i. i < length bs \<and> bs ! i}" by simp
  have "{j. Suc j \<in> {i. i < length m \<and> m ! i}} = {i. i < length bs \<and> bs ! i}"
    using m by auto
  then show ?case using m IH
    by (auto simp: bool_index_def nths_Cons)
qed

lemma length_bad_data_mask: "length (bad_data_mask df) = length df"
  by (simp add: bad_data_mask_map)

lemma transform_result:
  "snd (transform_and_model_data e w df) =
     (if df_quarantine df \<noteq> [] \<and> \<not> quarantine_write_ok e then Inl QuarantineWriteError
      else if product_raises (total_dtype df) (df_clean df) then Inl OverflowError
      else Inr (dim_product (with_total_amount (total_dtype df) (df_clean df)),
                fact_sales (with_total_amount (total_dtype df) (df_clean df))
                  (dim_product (with_total_amount (total_dtype df) (df_clean df)))))"
  by (simp add: transform_and_model_data_def to_csv_quarantine_def Let_def)

lemma nth_filter_source:
  assumes "k < length (filter P xs)"
  shows "\<exists>i<length xs. filter P xs ! k = xs ! i \<and> P (xs ! i)"
proof -
  have "filter P xs ! k \<in> set (filter P xs)" using assms by (rule nth_mem)
  then have "filter P xs ! k \<in> set xs" and p: "P (filter P xs ! k)"
    by (simp_all only: set_filter mem_Collect_eq)
  then obtain i where "i < length xs" "xs ! i = filter P xs ! k"
    by (metis in_set_conv_nth)
  then show ?thesis using p by metis
qed

lemma bad_data_mask_nth:
  "i < length df \<Longrightarrow>
   bad_data_mask df ! i = (customer_name (df ! i) = None \<or> (\<exists>p. price (df ! i) = Some p \<and> p \<le> 0))"
  by (simp add: bad_data_mask_map)

lemma map_src_with_total: "map src (with_total_amount dt clean) = clean"
  by (simp add: with_total_amount_def comp_def)

subsection \<open>Dropping duplicates and numbering\<close>

lemma dd_Nil: "bool_index [] m = []"
  by (simp add: bool_index_def)

lemma dd_Cons:
  "bool_index (x # xs) (not_mask (duplicated seen (x # xs))) =
   (if x \<in> set seen then [] else [x]) @ bool_index xs (not_mask (duplicated (x # seen) xs))"
  by (simp add: bool_index_def not_mask_def)

lemma set_dd: "set (bool_index xs (not_mask (duplicated seen xs))) = set xs - set seen"
proof (induction xs arbitrary: seen)
  case Nil
  show ?case by (simp add: dd_Nil)
next
  case (Cons x xs)
  have "set (bool_index xs (not_mask (duplicated (x # seen) xs))) = set xs - set (x # seen)"
    by (rule Cons)
  then show ?case unfolding dd_Cons by auto
qed

lemma distinct_dd: "distinct (bool_index xs (not_mask (duplicated seen xs)))"
proof (induction xs arbitrary: seen)
  case Nil
  show ?case by (simp add: dd_Nil)
next
  case (Cons x xs)
  have "distinct (bool_index xs (not_mask (duplicated (x # seen) xs)))"
    by (rule Cons)
  then show ?case unfolding dd_Cons by (simp add: set_dd)
qed

lemma first_seen_dd:
  "sorted_wrt (\<lambda>a b. first_index xs a < first_index xs b)
     (bool_index xs (not_mask (duplicated seen xs)))"
proof (induction xs arbitrary: seen)
  case Nil
  show ?case by (simp add: dd_Nil)
next
  case (Cons x xs)
  let ?rest = "bool_index xs (not_mask (duplicated (x # seen) xs))"
  have notx: "a \<noteq> x" if "a \<in> set ?rest" for a
    using that by (simp add: set_dd)
  have "sorted_wrt (\<lambda>a b. first_index xs a < first_index xs b) ?rest"
    by (rule Cons)
  then have rest: "sorted_wrt (\<lambda>a b. first_index (x # xs) a < first_index (x # xs) b) ?rest"
    by (rule sorted_wrt_mono_rel[rotated]) (use notx in auto)
  have "\<forall>a\<in>set ?rest. first_index (x # xs) x < first_index (x # xs) a"
    using notx by auto
  with rest show ?case unfolding dd_Cons by simp
qed

lemma set_drop_duplicates: "set (drop_duplicates xs) = set xs"
  by (simp add: drop_duplicates_def set_dd)

lemma distinct_drop_duplicates: "distinct (drop_duplicates xs)"
  by (simp add: drop_duplicates_def distinct_dd)

lemma first_seen_drop_duplicates:
  "sorted_wrt (\<lambda>a b. first_index xs a < first_index xs b) (drop_duplicates xs)"
  by (simp add: drop_duplicates_def first_seen_dd)

lemma length_dim_product:
  "length (dim_product clean) = length (drop_duplicates (map (\<lambda>c. row_key (src c)) clean))"
  by (simp add: dim_product_def)

lemma nth_dim_product:
  assumes "i < length (dim_product clean)"
  shows "dim_key (dim_product clean ! i) = drop_duplicates (map (\<lambda>c. row_key (src c)) clean) ! i"
    and "product_id (dim_product clean ! i) = int i + 1"
  using assms by (auto simp: dim_product_def nth_enumerate_eq dim_key_def split: prod.splits)

lemma map_dim_key_dim_product:
  "map dim_key (dim_product clean) = drop_duplicates (map (\<lambda>c. row_key (src c)) clean)"
  by (rule nth_equalityI) (simp_all add: length_dim_product nth_dim_product)

lemma map_product_id_dim_product:
  "map product_id (dim_product clean) = map (\<lambda>i. int i + 1) [0..<length (dim_product clean)]"
  by (rule nth_equalityI) (simp_all add: nth_dim_product)

lemma set_product_id_dim_product:
  "set (map product_id (dim_product clean)) = {1..int (length (dim_product clean))}"
proof -
  have "(\<lambda>i. int i + 1) ` {0..<n} = {1..int n}" for n
  proof (intro set_eqI iffI)
    fix k assume "k \<in> {1..int n}"
    then have "k = int (nat (k - 1)) + 1" "nat (k - 1) \<in> {0..<n}" by auto
    then show "k \<in> (\<lambda>i. int i + 1) ` {0..<n}" by blast
  qed auto
  then show ?thesis by (simp add: map_product_id_dim_product)
qed

subsection \<open>The left join\<close>

lemma filter_key_unique:
  "distinct (map f xs) \<Longrightarrow> d \<in> set xs \<Longrightarrow> filter (\<lambda>y. f y = f d) xs = [d]"
proof (induction xs)
  case Nil
  then show ?case by simp
next
  case (Cons x xs)
  show ?case
  proof (cases "x = d")
    case True
    have "filter (\<lambda>y. f y = f d) xs = []"
    proof -
      have "f d \<notin> f ` set xs" using Cons.prems(1) True by simp
      then have "\<forall>y\<in>set xs. f y \<noteq> f d" by (metis imageI)
      then show ?thesis by (simp add: filter_empty_conv)
    qed
    then show ?thesis using True by simp
  next
    case False
    then have d: "d \<in> set xs" using Cons.prems(2) by simp
    then have "f x \<noteq> f d" using Cons.prems(1) by auto
    then show ?thesis using Cons.IH d Cons.prems(1) by simp
  qed
qed

lemma match_props:
  assumes "distinct (map dim_key dim)" "row_key (src l) \<in> set (map dim_key dim)"
  shows "filter (\<lambda>d. dim_key d = row_key (src l)) dim = [match dim l]"
    and "match dim l \<in> set dim" and "dim_key (match dim l) = row_key (src l)"
proof -
  from assms(2) obtain d where d: "d \<in> set dim" "dim_key d = row_key (src l)" by auto
  have "filter (\<lambda>y. dim_key y = dim_key d) dim = [d]"
    using assms(1) d(1) by (rule filter_key_unique)
  then have f: "filter (\<lambda>d. dim_key d = row_key (src l)) dim = [d]" using d(2) by simp
  then have "match dim l = d" by (simp add: match_def)
  then show "filter (\<lambda>d. dim_key d = row_key (src l)) dim = [match dim l]"
    and "match dim l \<in> set dim" and "dim_key (match dim l) = row_key (src l)"
    using f d by simp_all
qed

lemma merge_left_map:
  assumes "distinct (map dim_key dim)"
    and "\<forall>l\<in>set left. row_key (src l) \<in> set (map dim_key dim)"
  shows "merge_left left dim = map (\<lambda>l. (l, Some (product_id (match dim l)))) left"
  using assms(2)
proof (induction left)
  case Nil
  show ?case by (simp add: merge_left_def)
next
  case (Cons l left)
  have tl: "merge_left left dim = map (\<lambda>l. (l, Some (product_id (match dim l)))) left"
    using Cons by simp
  have "filter (\<lambda>d. dim_key d = row_key (src l)) dim = [match dim l]"
    using match_props(1)[OF assms(1)] Cons.prems by simp
  then have "merge_left (l # left) dim = (l, Some (product_id (match dim l))) # merge_left left dim"
    by (simp add: merge_left_def)
  then show ?case using tl by simp
qed

lemma dim_product_covers:
  "\<forall>l\<in>set clean. row_key (src l) \<in> set (map dim_key (dim_product clean))"
  by (simp add: map_dim_key_dim_product set_drop_duplicates)

lemma distinct_dim_keys: "distinct (map dim_key (dim_product clean))"
  by (simp add: map_dim_key_dim_product distinct_drop_duplicates)

lemma distinct_product_ids: "distinct (map product_id (dim_product clean))"
  by (simp add: map_product_id_dim_product distinct_map inj_on_def)

lemma fact_sales_map:
  "fact_sales clean (dim_product clean) =
     map (\<lambda>l. \<lparr>f_order_id = order_id (src l),
                f_transaction_date = transaction_date (src l),
                f_customer_name = customer_name (src l),
                f_product_id = Some (product_id (match (dim_product clean) l)),
                f_quantity = quantity (src l),
                f_total_amount = total_amount l\<rparr>) clean"
  by (simp add: fact_sales_def merge_left_map[OF distinct_dim_keys dim_product_covers] comp_def)

lemma fact_sales_nth:
  assumes "i < length clean"
  shows "fact_sales clean (dim_product clean) ! i =
          \<lparr>f_order_id = order_id (src (clean ! i)),
           f_transaction_date = transaction_date (src (clean ! i)),
           f_customer_name = customer_name (src (clean ! i)),
           f_product_id = Some (product_id (match (dim_product clean) (clean ! i))),
           f_quantity = quantity (src (clean ! i)),
           f_total_amount = total_amount (clean ! i)\<rparr>"
  using assms by (simp add: fact_sales_map)

lemma length_fact_sales: "length (fact_sales clean (dim_product clean)) = length clean"
  by (simp add: fact_sales_map)

lemma match_dim_product:
  assumes "l \<in> set clean"
  shows "match (dim_product clean) l \<in> set (dim_product clean)"
    and "dim_key (match (dim_product clean) l) = row_key (src l)"
    and "d \<in> set (dim_product clean) \<Longrightarrow> dim_key d = row_key (src l) \<Longrightarrow>
         d = match (dim_product clean) l"
proof -
  have cov: "row_key (src l) \<in> set (map dim_key (dim_product clean))"
    using dim_product_covers assms by blast
  note mp = match_props [OF distinct_dim_keys cov]
  show "match (dim_product clean) l \<in> set (dim_product clean)" by (rule mp(2))
  show "dim_key (match (dim_product clean) l) = row_key (src l)" by (rule mp(3))
  assume "d \<in> set (dim_product clean)" "dim_key d = row_key (src l)"
  then have "d \<in> set (filter (\<lambda>d. dim_key d = row_key (src l)) (dim_product clean))" by simp
  then show "d = match (dim_product clean) l" by (simp only: mp(1)) simp
qed

lemma fact_total_nth:
  assumes "i < length clean"
  shows "f_total_amount (fact_sales (with_total_amount dt clean)
            (dim_product (with_total_amount dt clean)) ! i)
         = mul_cells dt (price (clean ! i)) (quantity (clean ! i))"
    and "f_order_id (fact_sales (with_total_amount dt clean)
            (dim_product (with_total_amount dt clean)) ! i) = order_id (clean ! i)"
proof -
  have i: "i < length (with_total_amount dt clean)"
    using assms by (simp add: with_total_amount_def)
  have n: "with_total_amount dt clean ! i =
        \<lparr>src = clean ! i, total_amount = mul_cells dt (price (clean ! i)) (quantity (clean ! i))\<rparr>"
    using assms by (simp add: with_total_amount_def)
  show "f_total_amount (fact_sales (with_total_amount dt clean)
            (dim_product (with_total_amount dt clean)) ! i)
         = mul_cells dt (price (clean ! i)) (quantity (clean ! i))"
    by (simp add: fact_sales_nth [OF i] n)
  show "f_order_id (fact_sales (with_total_amount dt clean)
            (dim_product (with_total_amount dt clean)) ! i) = order_id (clean ! i)"
    by (simp add: fact_sales_nth [OF i] n)
qed

subsection \<open>The stage as a whole\<close>

lemma int64_id: "- (2 ^ 63) \<le> x \<Longrightarrow> x < 2 ^ 63 \<Longrightarrow> int64 x = x"
  by (simp add: int64_def)

lemma transform_Inr:
  assumes "snd (transform_and_model_data e w df) = Inr (dim, fact_df)"
  shows "dim = dim_product (with_total_amount (total_dtype df) (df_clean df))"
    and "fact_df = fact_sales (with_total_amount (total_dtype df) (df_clean df)) dim"
  using assms by (auto simp: transform_result split: if_splits)

lemma transform_world:
  "fst (transform_and_model_data e w df) =
     (if df_quarantine df = [] then
        (if product_raises (total_dtype df) (df_clean df) then logging InfoTransformStart w
         else logging (InfoTransformed (length (df_clean df))) (logging InfoTransformStart w))
      else if quarantine_write_ok e then
        (if product_raises (total_dtype df) (df_clean df) then
           logging (WarningQuarantined (length (df_quarantine df)))
             ((attempt WriteQuarantine (logging InfoTransformStart w))
                \<lparr>quarantine_file := Some (df_quarantine df)\<rparr>)
         else
           logging (InfoTransformed (length (df_clean df)))
             (logging (WarningQuarantined (length (df_quarantine df)))
                ((attempt WriteQuarantine (logging InfoTransformStart w))
                   \<lparr>quarantine_file := Some (df_quarantine df)\<rparr>)))
      else (attempt WriteQuarantine (logging InfoTransformStart w))
             \<lparr>quarantine_file :=
                quarantine_left e
                  (quarantine_file (attempt WriteQuarantine (logging InfoTransformStart w)))\<rparr>)"
  by (simp add: transform_and_model_data_def to_csv_quarantine_def Let_def length_fact_sales
      with_total_amount_def)

lemma round_double_small: "\<bar>x\<bar> < 2 ^ 53 \<Longrightarrow> round_double x = x"
  by (simp add: round_double_def)

lemma mul_double_small:
  assumes "\<bar>v\<bar> < 2 ^ 53" and "\<bar>q\<bar> < 2 ^ 53" and "\<bar>v * q\<bar> < 2 ^ 53"
  shows "mul_double v q = F64 (v * q)"
proof -
  have v: "\<bar>v\<bar> < 2 ^ 1024" using assms(1) by (rule less_trans) simp
  have p: "v * q < 2 ^ 1024" "- (2 ^ 1024) < v * q"
    using assms(3) by (auto intro: less_trans)
  show ?thesis
    using assms v p
    by (simp add: mul_double_def double_of_int_def round_double_small Let_def)
qed

subsection \<open>The examples, evaluated\<close>

lemma dim_sample:
  "dim_product (with_total_amount Float64 (df_clean sample)) =
     [\<lparr>d_product = ''Pen'', d_category = ''Office'', d_price = Some 3, product_id = 1\<rparr>,
      \<lparr>d_product = ''Ink'', d_category = ''Office'', d_price = None, product_id = 2\<rparr>]"
  by (simp add: sample_def df_clean_filter with_total_amount_def dim_product_def
      drop_duplicates_def bool_index_def not_mask_def row_key_def enumerate_eq_zip)

lemma clean_sample:
  "with_total_amount Float64 (df_clean sample) =
    [\<lparr>src = sample ! 0, total_amount = F64 6\<rparr>,
     \<lparr>src = sample ! 2, total_amount = NaN\<rparr>,
     \<lparr>src = sample ! 4, total_amount = F64 15\<rparr>]"
  by (simp add: sample_def df_clean_filter with_total_amount_def mul_cells_def mul_double_def
      double_of_int_def round_double_def)

lemma fact_sample:
  "map f_product_id (fact_sales (with_total_amount Float64 (df_clean sample))
      (dim_product (with_total_amount Float64 (df_clean sample)))) = [Some 1, Some 2, Some 1]"
  unfolding dim_sample unfolding clean_sample
  by (simp add: fact_sales_def merge_left_def dim_key_def row_key_def sample_def)

lemma total_dtype_sample: "total_dtype sample = Float64"
  by (simp add: sample_def total_dtype_def price_dtype_def quantity_dtype_def int_dtype_def
      python_ints_def result_dtype_def)

lemma transform_sample:
  "quarantine_write_ok e \<Longrightarrow>
   snd (transform_and_model_data e w sample) = Inr (sample_dim, sample_fact)"
  unfolding transform_result total_dtype_sample
  unfolding dim_sample
  unfolding clean_sample
  by (simp add: sample_dim_def sample_fact_def fact_sales_def merge_left_def dim_key_def
      row_key_def sample_def product_raises_def)

lemma df_clean_raw_data:
  "df_clean raw_data = [raw_data ! 0, raw_data ! 1, raw_data ! 3, raw_data ! 5]"
  by (simp add: raw_data_def df_clean_filter)

lemma df_quarantine_raw_data: "df_quarantine raw_data = [raw_data ! 2, raw_data ! 4]"
  by (simp add: raw_data_def df_quarantine_filter)

lemma total_dtype_raw_data: "total_dtype raw_data = Int64"
  by (simp add: raw_data_def total_dtype_def price_dtype_def quantity_dtype_def int_dtype_def
      python_ints_def result_dtype_def)

lemma transform_raw:
  "quarantine_write_ok e \<Longrightarrow>
   snd (transform_and_model_data e w raw_data) = Inr (raw_dim, raw_fact)"
  unfolding transform_result total_dtype_raw_data df_clean_raw_data raw_dim_def raw_fact_def
  by (simp add: raw_data_def with_total_amount_def mul_cells_def int64_def product_raises_def
      dim_product_def drop_duplicates_def bool_index_def not_mask_def row_key_def dim_key_def
      enumerate_eq_zip fact_sales_def merge_left_def)

subsection \<open>The dtypes of two kinds of frame\<close>

lemma leading_values_subset: "v \<in> set (leading_values cs) \<Longrightarrow> Some v \<in> set cs"
  by (induction cs rule: leading_values.induct) auto

lemma leading_values_all: "None \<notin> set cs \<Longrightarrow> map Some (leading_values cs) = cs"
  by (induction cs rule: leading_values.induct) auto

lemma not_python_ints:
  assumes "\<forall>v\<in>set vs. in_int64 v"
  shows "\<not> python_ints vs" and "\<not> list_ex (\<lambda>v. 2 ^ 63 \<le> v) vs"
proof -
  have a: "\<not> v < - (2 ^ 63)" "\<not> 2 ^ 63 \<le> v" "\<not> 2 ^ 64 \<le> v" if "v \<in> set vs" for v
  proof -
    have "- (2 ^ 63) \<le> v" "v < 2 ^ 63" using assms that by (simp_all add: in_int64_def)
    then show "\<not> v < - (2 ^ 63)" "\<not> 2 ^ 63 \<le> v" "\<not> 2 ^ 64 \<le> v" by simp_all
  qed
  show "\<not> list_ex (\<lambda>v. 2 ^ 63 \<le> v) vs"
    unfolding list_ex_iff using a(2) by blast
  then show "\<not> python_ints vs"
    unfolding python_ints_def list_ex_iff using a(1,3) by blast
qed

lemma int_dtype_Int64:
  assumes "\<forall>v\<in>set vs. in_int64 v"
  shows "int_dtype vs = Int64"
  using not_python_ints [OF assms] by (simp add: int_dtype_def)

lemma total_dtype_int64_frame:
  assumes "\<forall>r\<in>set df. (\<exists>v. price r = Some v \<and> in_int64 v) \<and> in_int64 (quantity r)"
  shows "total_dtype df = Int64"
proof -
  have lead: "\<forall>v\<in>set (leading_values (map price df)). in_int64 v"
  proof
    fix v assume "v \<in> set (leading_values (map price df))"
    then have "Some v \<in> set (map price df)" by (rule leading_values_subset)
    then show "in_int64 v" using assms by auto
  qed
  have none: "\<not> list_ex (\<lambda>r. price r = None) df"
    using assms by (auto simp: list_ex_iff)
  have p: "price_dtype df = Int64"
    using none by (simp add: price_dtype_def not_python_ints [OF lead] int_dtype_Int64 [OF lead])
  have q: "quantity_dtype df = Int64"
    unfolding quantity_dtype_def using assms by (intro int_dtype_Int64) auto
  show ?thesis by (simp add: total_dtype_def result_dtype_def p q)
qed

lemma total_dtype_float64_frame:
  assumes "\<exists>r\<in>set df. price r = None"
    and "\<forall>r\<in>set df. (\<forall>v. price r = Some v \<longrightarrow> in_int64 v) \<and> in_int64 (quantity r)"
  shows "total_dtype df = Float64"
proof -
  have lead: "\<forall>v\<in>set (leading_values (map price df)). in_int64 v"
  proof
    fix v assume "v \<in> set (leading_values (map price df))"
    then have "Some v \<in> set (map price df)" by (rule leading_values_subset)
    then show "in_int64 v" using assms(2) by auto
  qed
  have some: "list_ex (\<lambda>r. price r = None) df"
    using assms(1) by (simp add: list_ex_iff)
  have p: "price_dtype df = Float64"
    using some by (simp add: price_dtype_def not_python_ints [OF lead])
  have q: "quantity_dtype df = Int64"
    unfolding quantity_dtype_def using assms(2) by (intro int_dtype_Int64) auto
  show ?thesis by (simp add: total_dtype_def result_dtype_def p q)
qed

subsection \<open>Loading, the report and the run\<close>

lemma load_data_returns: "snd (load_data e w d f) = Inr ()"
  by (simp add: load_data_def split: prod.splits sum.splits)

lemma load_body_cases:
  "load_body e w d f =
    (if \<not> connect_ok e then (attempt Connect w, Inl StorageWriteError)
     else if \<not> dim_write_ok e then
       ((attempt WriteDim (attempt Connect w))
          \<lparr>dim_table := dim_left e (dim_table (attempt WriteDim (attempt Connect w)))\<rparr>,
        Inl StorageWriteError)
     else if \<not> fact_write_ok e then
       ((attempt WriteFact (logging InfoLoadedDim
           ((attempt WriteDim (attempt Connect w))\<lparr>dim_table := Some d\<rparr>)))
          \<lparr>fact_table := fact_left e (fact_table w)\<rparr>,
        Inl StorageWriteError)
     else
       (logging InfoCompleted (attempt CloseConn (logging InfoLoadedFact
          ((attempt WriteFact (logging InfoLoadedDim
             ((attempt WriteDim (attempt Connect w))\<lparr>dim_table := Some d\<rparr>)))
               \<lparr>fact_table := Some f\<rparr>))), Inr ()))"
  by (simp add: load_body_def Let_def attempt_def logging_def)

lemma load_data_quarantine_file:
  "quarantine_file (fst (load_data e w d f)) = quarantine_file w"
  by (simp add: load_data_def load_body_cases attempt_def logging_def)

lemma load_sink_failures:
  "(df_quarantine df \<noteq> [] \<and> \<not> quarantine_write_ok e \<longrightarrow>
      snd (transform_and_model_data e w df) = Inl QuarantineWriteError
      \<and> io (fst (transform_and_model_data e w df)) = io w @ [WriteQuarantine])
   \<and> snd (load_data e w d f) = Inr ()
   \<and> (\<not> (connect_ok e \<and> dim_write_ok e \<and> fact_write_ok e) \<longrightarrow>
        (\<exists>es. log (fst (load_data e w d f)) = log w @ es @ [ErrorLoadingFailed]))
   \<and> (\<exists>ops. io (fst (load_data e w d f)) = io w @ ops \<and> distinct ops)
   \<and> (connect_ok e \<and> dim_write_ok e \<and> \<not> fact_write_ok e \<longrightarrow>
        dim_table (fst (load_data e w d f)) = Some d
        \<and> fact_table (fst (load_data e w d f)) = fact_left e (fact_table w))
   \<and> quarantine_file (fst (load_data e w d f)) = quarantine_file w"
proof (intro conjI impI)
  assume "df_quarantine df \<noteq> [] \<and> \<not> quarantine_write_ok e"
  then show "snd (transform_and_model_data e w df) = Inl QuarantineWriteError"
    and "io (fst (transform_and_model_data e w df)) = io w @ [WriteQuarantine]"
    by (simp_all add: transform_result transform_world attempt_def logging_def)
next
  show "snd (load_data e w d f) = Inr ()" by (rule load_data_returns)
next
  assume "\<not> (connect_ok e \<and> dim_write_ok e \<and> fact_write_ok e)"
  then show "\<exists>es. log (fst (load_data e w d f)) = log w @ es @ [ErrorLoadingFailed]"
    by (auto simp: load_data_def load_body_cases attempt_def logging_def)
next
  show "\<exists>ops. io (fst (load_data e w d f)) = io w @ ops \<and> distinct ops"
    by (simp add: load_data_def load_body_cases attempt_def logging_def)
next
  assume "connect_ok e \<and> dim_write_ok e \<and> \<not> fact_write_ok e"
  then show "dim_table (fst (load_data e w d f)) = Some d"
    and "fact_table (fst (load_data e w d f)) = fact_left e (fact_table w)"
    by (simp_all add: load_data_def load_body_cases attempt_def logging_def)
next
  show "quarantine_file (fst (load_data e w d f)) = quarantine_file w"
    by (simp add: load_data_def load_body_cases attempt_def logging_def)
qed

lemma report_result:
  "snd (report e w) =
     (if \<not> report_connect_ok e then Inl ReportConnectError
      else if \<not> report_query_ok e \<or> dim_table w = None \<or> fact_table w = None
        then Inl ReportQueryError
      else Inr ())"
  by (simp add: report_def Let_def attempt_def print_def)

lemma report_keeps:
  "quarantine_file (fst (report e w)) = quarantine_file w"
  "dim_table (fst (report e w)) = dim_table w"
  "fact_table (fst (report e w)) = fact_table w"
  by (simp_all add: report_def Let_def attempt_def print_def)

lemma main_read_ok:
  assumes "raw_write_ok e" "read_ok e"
  shows "main e w =
     (case transform_and_model_data e
             (logging (InfoExtracted 6) (attempt ReadRaw (logging InfoExtractStart
                (logging InfoGenerated ((attempt WriteRaw w)\<lparr>raw_file := Some raw_data\<rparr>)))))
             raw_data of
        (w3, Inl err) \<Rightarrow> (w3, Inl err)
      | (w3, Inr (dim_df, fact_df)) \<Rightarrow>
          (case load_data e w3 dim_df fact_df of
             (w4, Inl err) \<Rightarrow> (w4, Inl err)
           | (w4, Inr u) \<Rightarrow> report e w4))"
proof -
  have l: "length raw_data = 6" by (simp add: raw_data_def)
  show ?thesis
    using assms
    by (simp add: main_def generate_dummy_data_def extract_data_def read_csv_def Let_def l
        logging_def attempt_def)
qed

lemma main_sink_failures:
  "(raw_write_ok e \<and> read_ok e \<and> quarantine_write_ok e \<longrightarrow>
        quarantine_file (fst (main e w)) = Some (df_quarantine raw_data)
        \<and> snd (main e w) =
            (if \<not> report_connect_ok e then Inl ReportConnectError
             else if \<not> report_query_ok e \<or> dim_table (fst (main e w)) = None
                     \<or> fact_table (fst (main e w)) = None
               then Inl ReportQueryError
             else Inr ()))
   \<and> (raw_write_ok e \<and> read_ok e \<and> \<not> quarantine_write_ok e \<longrightarrow>
        snd (main e w) = Inl QuarantineWriteError
        \<and> dim_table (fst (main e w)) = dim_table w
        \<and> fact_table (fst (main e w)) = fact_table w)"
proof (intro conjI impI)
  let ?w2 = "logging (InfoExtracted 6) (attempt ReadRaw (logging InfoExtractStart
                (logging InfoGenerated ((attempt WriteRaw w)\<lparr>raw_file := Some raw_data\<rparr>))))"
  have q: "df_quarantine raw_data \<noteq> []" by (simp add: df_quarantine_raw_data)
  {
    assume a: "raw_write_ok e \<and> read_ok e \<and> quarantine_write_ok e"
    then have "snd (transform_and_model_data e ?w2 raw_data) = Inr (raw_dim, raw_fact)"
      by (simp add: transform_raw)
    then obtain w3 where t: "transform_and_model_data e ?w2 raw_data = (w3, Inr (raw_dim, raw_fact))"
      by (cases "transform_and_model_data e ?w2 raw_data") simp
    have w3: "w3 = fst (transform_and_model_data e ?w2 raw_data)" by (simp add: t)
    obtain w4 where l: "load_data e w3 raw_dim raw_fact = (w4, Inr ())"
      using load_data_returns [of e w3 raw_dim raw_fact]
      by (cases "load_data e w3 raw_dim raw_fact") simp
    have w4: "w4 = fst (load_data e w3 raw_dim raw_fact)" by (simp add: l)
    have m: "main e w = report e w4"
      using a by (simp add: main_read_ok t l)
    have qf: "quarantine_file w4 = Some (df_quarantine raw_data)"
      unfolding w4 load_data_quarantine_file w3 using a q
      by (simp add: transform_world logging_def attempt_def)
    show "quarantine_file (fst (main e w)) = Some (df_quarantine raw_data)"
      unfolding m by (simp add: report_keeps qf)
    show "snd (main e w) =
            (if \<not> report_connect_ok e then Inl ReportConnectError
             else if \<not> report_query_ok e \<or> dim_table (fst (main e w)) = None
                     \<or> fact_table (fst (main e w)) = None
               then Inl ReportQueryError
             else Inr ())"
      unfolding m by (simp only: report_result report_keeps)
  }
  {
    assume a: "raw_write_ok e \<and> read_ok e \<and> \<not> quarantine_write_ok e"
    then have "snd (transform_and_model_data e ?w2 raw_data) = Inl QuarantineWriteError"
      using q by (simp add: transform_result)
    then obtain w3 where t: "transform_and_model_data e ?w2 raw_data = (w3, Inl QuarantineWriteError)"
      by (cases "transform_and_model_data e ?w2 raw_data") simp
    have w3: "w3 = fst (transform_and_model_data e ?w2 raw_data)" by (simp add: t)
    have m: "main e w = (w3, Inl QuarantineWriteError)"
      using a by (simp add: main_read_ok t)
    show "snd (main e w) = Inl QuarantineWriteError" unfolding m by simp
    show "dim_table (fst (main e w)) = dim_table w" unfolding m
      using a q by (simp add: w3 transform_world logging_def attempt_def)
    show "fact_table (fst (main e w)) = fact_table w" unfolding m
      using a q by (simp add: w3 transform_world logging_def attempt_def)
  }
qed

section \<open>The quality partition\<close>

text \<open>
  C1. The partition marks a record as bad exactly when its \<^verbatim>\<open>customer_name\<close> is missing
  or its \<^verbatim>\<open>price\<close> is a number that is at most 0; a price of exactly 0 is bad. The mask
  is the record-wise image of that test, so no record's class depends on another record.
\<close>

theorem partition_rule:
  "bad_data_mask df = map (\<lambda>r. customer_name r = None \<or> (\<exists>p. price r = Some p \<and> p \<le> 0)) df
   \<and> df_quarantine df = filter (\<lambda>r. customer_name r = None \<or> (\<exists>p. price r = Some p \<and> p \<le> 0)) df
   \<and> df_clean df = filter (\<lambda>r. \<not> (customer_name r = None \<or> (\<exists>p. price r = Some p \<and> p \<le> 0))) df
   \<and> (\<forall>r\<in>set df. price r = Some 0 \<longrightarrow> r \<in> set (df_quarantine df) \<and> r \<notin> set (df_clean df))"
proof (intro conjI)
  show "\<forall>r\<in>set df. price r = Some 0 \<longrightarrow> r \<in> set (df_quarantine df) \<and> r \<notin> set (df_clean df)"
    by (simp add: df_quarantine_filter df_clean_filter)
qed (rule bad_data_mask_map df_quarantine_filter df_clean_filter)+

theorem partition_rule_witness:
  "sample ! 1 \<in> set sample \<and> price (sample ! 1) = Some 0
   \<and> sample ! 1 \<in> set (df_quarantine sample) \<and> sample ! 1 \<notin> set (df_clean sample)
   \<and> bad_data_mask sample = [False, True, False, True, False]
   \<and> map order_id (df_quarantine sample) = [2, 4]
   \<and> map order_id (df_clean sample) = [1, 3, 5]"
  using partition_rule [of sample] by (simp add: sample_def)

text \<open>
  C4. The partition loses and invents nothing: the two lengths add up to the input's, the
  two outputs together hold the input's records with their multiplicities, each output
  is the input restricted to its own positions (the positions where the mask holds, and
  those where it does not), in the input's order, and the empty batch gives two empty
  batches. The two sets of positions are disjoint and cover every position; no record
  is in both outputs, and every record of the input is in one of them.
\<close>

theorem partition_lossless:
  "length (df_clean df) + length (df_quarantine df) = length df
   \<and> mset (df_clean df) + mset (df_quarantine df) = mset df
   \<and> df_quarantine df = nths df {i. i < length df \<and> bad_data_mask df ! i}
   \<and> df_clean df = nths df {i. i < length df \<and> \<not> bad_data_mask df ! i}
   \<and> subseq (df_clean df) df \<and> subseq (df_quarantine df) df
   \<and> df_clean [] = [] \<and> df_quarantine [] = []
   \<and> {i. i < length df \<and> bad_data_mask df ! i} \<inter> {i. i < length df \<and> \<not> bad_data_mask df ! i} = {}
   \<and> {i. i < length df \<and> bad_data_mask df ! i} \<union> {i. i < length df \<and> \<not> bad_data_mask df ! i}
       = {..<length df}
   \<and> set (df_clean df) \<inter> set (df_quarantine df) = {}
   \<and> set (df_clean df) \<union> set (df_quarantine df) = set df"
proof (intro conjI)
  show "length (df_clean df) + length (df_quarantine df) = length df"
    unfolding df_quarantine_filter df_clean_filter
    using sum_length_filter_compl [of "\<lambda>r. customer_name r = None \<or> (\<exists>p. price r = Some p \<and> p \<le> 0)" df]
    by simp
  show "mset (df_clean df) + mset (df_quarantine df) = mset df"
    unfolding df_quarantine_filter df_clean_filter by simp
  show "df_quarantine df = nths df {i. i < length df \<and> bad_data_mask df ! i}"
    unfolding df_quarantine_def
    using bool_index_nths [of "bad_data_mask df" df] by (simp add: length_bad_data_mask)
  have "bool_index df (not_mask (bad_data_mask df)) =
        nths df {i. i < length (not_mask (bad_data_mask df)) \<and> not_mask (bad_data_mask df) ! i}"
    by (rule bool_index_nths) (simp add: not_mask_def length_bad_data_mask)
  also have "{i. i < length (not_mask (bad_data_mask df)) \<and> not_mask (bad_data_mask df) ! i}
             = {i. i < length df \<and> \<not> bad_data_mask df ! i}"
    by (auto simp: not_mask_def length_bad_data_mask)
  finally show "df_clean df = nths df {i. i < length df \<and> \<not> bad_data_mask df ! i}"
    by (simp add: df_clean_def)
  show "subseq (df_clean df) df" by (simp add: df_clean_filter)
  show "subseq (df_quarantine df) df" by (simp add: df_quarantine_filter)
  show "df_clean [] = []" by (simp add: df_clean_filter)
  show "df_quarantine [] = []" by (simp add: df_quarantine_filter)
  show "{i. i < length df \<and> bad_data_mask df ! i}
        \<inter> {i. i < length df \<and> \<not> bad_data_mask df ! i} = {}"
    by blast
  show "{i. i < length df \<and> bad_data_mask df ! i}
        \<union> {i. i < length df \<and> \<not> bad_data_mask df ! i} = {..<length df}"
    by blast
  show "set (df_clean df) \<inter> set (df_quarantine df) = {}"
    unfolding df_quarantine_filter df_clean_filter set_filter by blast
  show "set (df_clean df) \<union> set (df_quarantine df) = set df"
    unfolding df_quarantine_filter df_clean_filter set_filter by blast
qed

theorem partition_lossless_witness:
  "length (df_clean sample) + length (df_quarantine sample) = 5
   \<and> {i. i < length sample \<and> bad_data_mask sample ! i} = {1, 3}
   \<and> df_quarantine sample = nths sample {1, 3}
   \<and> subseq (df_clean sample) sample"
proof -
  have m: "bad_data_mask sample = [False, True, False, True, False]"
    by (simp add: sample_def bad_data_mask_map)
  have l: "length sample = 5" by (simp add: sample_def)
  have s: "{i. i < length sample \<and> bad_data_mask sample ! i} = {1, 3}"
    unfolding m l by (auto simp: nth_Cons' less_Suc_eq numeral_eq_Suc)
  note p = partition_lossless [of sample]
  have 1: "length (df_clean sample) + length (df_quarantine sample) = 5"
    using p [THEN conjunct1] unfolding l .
  have 2: "df_quarantine sample = nths sample {1, 3}"
    using p [THEN conjunct2, THEN conjunct2, THEN conjunct1] unfolding s .
  have 3: "subseq (df_clean sample) sample"
    by (rule p [THEN conjunct2, THEN conjunct2, THEN conjunct2, THEN conjunct2, THEN conjunct1])
  show ?thesis by (intro conjI) (rule 1 s 2 3)+
qed

text \<open>
  C9. The partition changes no record: every record of the quarantined output, and every
  record of the clean output, is a record of the input, equal to it in every field; the
  column added afterwards leaves the original fields of the clean records as they were;
  and what is written to the quarantine file is the quarantined output itself.
\<close>

theorem partition_keeps_records:
  "(\<forall>k<length (df_quarantine df). \<exists>i<length df. df_quarantine df ! k = df ! i \<and> bad_data_mask df ! i)
   \<and> (\<forall>k<length (df_clean df). \<exists>i<length df. df_clean df ! k = df ! i \<and> \<not> bad_data_mask df ! i)
   \<and> map src (with_total_amount dt (df_clean df)) = df_clean df
   \<and> (df_quarantine df \<noteq> [] \<and> quarantine_write_ok e \<longrightarrow>
        quarantine_file (fst (transform_and_model_data e w df)) = Some (df_quarantine df))
   \<and> (df_quarantine df = [] \<longrightarrow>
        quarantine_file (fst (transform_and_model_data e w df)) = quarantine_file w)"
proof (intro conjI allI impI)
  fix k assume "k < length (df_quarantine df)"
  then show "\<exists>i<length df. df_quarantine df ! k = df ! i \<and> bad_data_mask df ! i"
    unfolding df_quarantine_filter
    using nth_filter_source [of k "\<lambda>r. customer_name r = None \<or> (\<exists>p. price r = Some p \<and> p \<le> 0)" df]
    by (metis bad_data_mask_nth)
next
  fix k assume "k < length (df_clean df)"
  then show "\<exists>i<length df. df_clean df ! k = df ! i \<and> \<not> bad_data_mask df ! i"
    unfolding df_clean_filter
    using nth_filter_source [of k "\<lambda>r. \<not> (customer_name r = None \<or> (\<exists>p. price r = Some p \<and> p \<le> 0))" df]
    by (metis bad_data_mask_nth)
next
  show "map src (with_total_amount dt (df_clean df)) = df_clean df"
    by (rule map_src_with_total)
next
  assume "df_quarantine df \<noteq> [] \<and> quarantine_write_ok e"
  then show "quarantine_file (fst (transform_and_model_data e w df)) = Some (df_quarantine df)"
    by (simp add: transform_world logging_def attempt_def)
next
  assume "df_quarantine df = []"
  then show "quarantine_file (fst (transform_and_model_data e w df)) = quarantine_file w"
    by (simp add: transform_world logging_def attempt_def)
qed

text \<open>
  The witness for C9: the sample batch, with a quarantine write that succeeds.
\<close>

theorem partition_keeps_records_witness:
  "df_quarantine sample \<noteq> [] \<and> quarantine_write_ok all_ok
   \<and> quarantine_file (fst (transform_and_model_data all_ok empty_world sample))
       = Some [sample ! 1, sample ! 3]
   \<and> map src (with_total_amount Float64 (df_clean sample)) = [sample ! 0, sample ! 2, sample ! 4]
   \<and> (1::nat) < length (df_quarantine sample)
   \<and> (\<exists>i<length sample. df_quarantine sample ! 1 = sample ! i \<and> bad_data_mask sample ! i)"
proof -
  have q: "df_quarantine sample = [sample ! 1, sample ! 3]"
    by (simp add: sample_def df_quarantine_filter)
  have c: "df_clean sample = [sample ! 0, sample ! 2, sample ! 4]"
    by (simp add: sample_def df_clean_filter)
  have h: "df_quarantine sample \<noteq> [] \<and> quarantine_write_ok all_ok"
    unfolding q by (simp add: all_ok_def)
  have k: "(1::nat) < length (df_quarantine sample)" unfolding q by simp
  note t = partition_keeps_records [of sample Float64 all_ok empty_world]
  have 1: "quarantine_file (fst (transform_and_model_data all_ok empty_world sample))
       = Some (df_quarantine sample)"
    using t h by blast
  have 2: "map src (with_total_amount Float64 (df_clean sample)) = df_clean sample"
    using t by blast
  have 3: "\<exists>i<length sample. df_quarantine sample ! 1 = sample ! i \<and> bad_data_mask sample ! i"
    using t k by blast
  have 1: "quarantine_file (fst (transform_and_model_data all_ok empty_world sample))
       = Some [sample ! 1, sample ! 3]"
    using 1 unfolding q .
  have 2: "map src (with_total_amount Float64 (df_clean sample)) = [sample ! 0, sample ! 2, sample ! 4]"
    using 2 unfolding c .
  show ?thesis by (intro conjI) (rule h [THEN conjunct1] h [THEN conjunct2] 1 2 k 3)+
qed

text \<open>
  C10. A record with a missing price and a customer name is classified as valid, not as
  bad: the comparison of a missing value with 0 is false. It gets a dimension row for its
  key (with the missing price) and a fact row that points to it; its total amount is
  missing.
\<close>

theorem missing_price_is_valid:
  assumes "r \<in> set df" and "price r = None" and "customer_name r \<noteq> None"
  shows "r \<in> set (df_clean df) \<and> r \<notin> set (df_quarantine df)
    \<and> (\<forall>e w dim fact_df.
          snd (transform_and_model_data e w df) = Inr (dim, fact_df) \<longrightarrow>
            (\<exists>d\<in>set dim. dim_key d = row_key r
               \<and> (\<exists>x\<in>set fact_df. f_order_id x = order_id r
                     \<and> f_customer_name x = customer_name r
                     \<and> f_product_id x = Some (product_id d)
                     \<and> f_total_amount x = NaN)))"
proof (intro conjI allI impI)
  show c: "r \<in> set (df_clean df)" using assms by (auto simp: df_clean_filter)
  show "r \<notin> set (df_quarantine df)" using assms by (auto simp: df_quarantine_filter)
  fix e w dim fact_df
  assume t: "snd (transform_and_model_data e w df) = Inr (dim, fact_df)"
  let ?c = "with_total_amount (total_dtype df) (df_clean df)"
  from c obtain i where i: "i < length (df_clean df)" "df_clean df ! i = r"
    by (auto simp: in_set_conv_nth)
  have ic: "i < length ?c" using i by (simp add: with_total_amount_def)
  have n: "?c ! i = \<lparr>src = r, total_amount = NaN\<rparr>"
    using i assms(2) by (simp add: with_total_amount_def mul_cells_def)
  have mem: "?c ! i \<in> set ?c" using ic by simp
  note m = match_dim_product [OF mem]
  have d: "dim = dim_product ?c" and f: "fact_df = fact_sales ?c (dim_product ?c)"
    using transform_Inr [OF t] by simp_all
  have x: "fact_df ! i \<in> set fact_df"
    unfolding f using ic by (simp add: length_fact_sales)
  have row: "fact_df ! i =
          \<lparr>f_order_id = order_id r,
           f_transaction_date = transaction_date r,
           f_customer_name = customer_name r,
           f_product_id = Some (product_id (match (dim_product ?c) (?c ! i))),
           f_quantity = quantity r,
           f_total_amount = NaN\<rparr>"
    unfolding f by (simp add: fact_sales_nth [OF ic] n)
  have A: "match (dim_product ?c) (?c ! i) \<in> set dim" unfolding d by (rule m(1))
  have B: "dim_key (match (dim_product ?c) (?c ! i)) = row_key r" using m(2) n by simp
  have D: "f_order_id (fact_df ! i) = order_id r
         \<and> f_customer_name (fact_df ! i) = customer_name r
         \<and> f_product_id (fact_df ! i) = Some (product_id (match (dim_product ?c) (?c ! i)))
         \<and> f_total_amount (fact_df ! i) = NaN"
    unfolding row by simp
  show "\<exists>d\<in>set dim. dim_key d = row_key r
               \<and> (\<exists>x\<in>set fact_df. f_order_id x = order_id r
                     \<and> f_customer_name x = customer_name r
                     \<and> f_product_id x = Some (product_id d)
                     \<and> f_total_amount x = NaN)"
    using A B x D by blast
qed

text \<open>
  The witness for C10: the third record of the sample batch.
\<close>

theorem missing_price_is_valid_witness:
  "sample ! 2 \<in> set sample \<and> price (sample ! 2) = None \<and> customer_name (sample ! 2) \<noteq> None
   \<and> sample ! 2 \<in> set (df_clean sample) \<and> sample ! 2 \<notin> set (df_quarantine sample)
   \<and> snd (transform_and_model_data all_ok empty_world sample) = Inr (sample_dim, sample_fact)
   \<and> (\<exists>d\<in>set sample_dim. dim_key d = row_key (sample ! 2)
         \<and> (\<exists>x\<in>set sample_fact. f_order_id x = order_id (sample ! 2)
               \<and> f_customer_name x = customer_name (sample ! 2)
               \<and> f_product_id x = Some (product_id d)
               \<and> f_total_amount x = NaN))"
proof -
  have h: "sample ! 2 \<in> set sample" "price (sample ! 2) = None"
          "customer_name (sample ! 2) \<noteq> None"
    by (simp_all add: sample_def)
  have ok: "quarantine_write_ok all_ok" by (simp add: all_ok_def)
  have t: "snd (transform_and_model_data all_ok empty_world sample) = Inr (sample_dim, sample_fact)"
    using ok by (rule transform_sample)
  show ?thesis using h t missing_price_is_valid [OF h] by blast
qed

section \<open>The dimension and the fact table\<close>

text \<open>
  C2. The dimension batch has one row for each distinct key (product, category, price) of
  the valid batch and no key twice; its rows are in the order in which their keys first
  occur in the valid batch; the row at index \<open>i\<close> has \<^verbatim>\<open>product_id\<close> \<open>i + 1\<close>, so that the
  identifiers are exactly \<open>1, \<dots>, length\<close>, each once.
\<close>

theorem dimension_first_seen_dense:
  "distinct (map dim_key (dim_product clean))
   \<and> set (map dim_key (dim_product clean)) = set (map (\<lambda>c. row_key (src c)) clean)
   \<and> sorted_wrt (<) (map (\<lambda>d. first_index (map (\<lambda>c. row_key (src c)) clean) (dim_key d))
                         (dim_product clean))
   \<and> (\<forall>i<length (dim_product clean). product_id (dim_product clean ! i) = int i + 1)
   \<and> set (map product_id (dim_product clean)) = {1..int (length (dim_product clean))}
   \<and> distinct (map product_id (dim_product clean))"
proof (intro conjI)
  let ?keys = "map (\<lambda>c. row_key (src c)) clean"
  show "distinct (map dim_key (dim_product clean))" by (rule distinct_dim_keys)
  show "set (map dim_key (dim_product clean)) = set ?keys"
    by (simp only: map_dim_key_dim_product set_drop_duplicates)
  have "sorted_wrt (\<lambda>a b. first_index ?keys a < first_index ?keys b)
          (map dim_key (dim_product clean))"
    by (simp only: map_dim_key_dim_product first_seen_drop_duplicates)
  then show "sorted_wrt (<) (map (\<lambda>d. first_index ?keys (dim_key d)) (dim_product clean))"
    by (simp add: sorted_wrt_map)
  show "\<forall>i<length (dim_product clean). product_id (dim_product clean ! i) = int i + 1"
    by (simp add: nth_dim_product)
  show "set (map product_id (dim_product clean)) = {1..int (length (dim_product clean))}"
    by (rule set_product_id_dim_product)
  show "distinct (map product_id (dim_product clean))" by (rule distinct_product_ids)
qed

text \<open>
  The witness for C2: the clean part of the sample batch has the keys Pen, Ink, Pen.
\<close>

theorem dimension_first_seen_dense_witness:
  "map product_id (dim_product (with_total_amount Float64 (df_clean sample))) = [1, 2]
   \<and> set (map product_id (dim_product (with_total_amount Float64 (df_clean sample)))) = {1..2}
   \<and> map dim_key (dim_product (with_total_amount Float64 (df_clean sample)))
       = [(''Pen'', ''Office'', Some 3), (''Ink'', ''Office'', None)]
   \<and> map (first_index (map row_key (df_clean sample)))
        [(''Pen'', ''Office'', Some 3), (''Ink'', ''Office'', None)] = [0, 1]"
proof -
  have "set (map product_id (dim_product (with_total_amount Float64 (df_clean sample))))
        = {1..int (length (dim_product (with_total_amount Float64 (df_clean sample))))}"
    using dimension_first_seen_dense [of "with_total_amount Float64 (df_clean sample)"] by blast
  then have "set (map product_id (dim_product (with_total_amount Float64 (df_clean sample)))) = {1..2}"
    by (simp add: dim_sample)
  moreover have "map (first_index (map row_key (df_clean sample)))
        [(''Pen'', ''Office'', Some 3), (''Ink'', ''Office'', None)] = [0, 1]"
    by (simp add: sample_def df_clean_filter row_key_def)
  ultimately show ?thesis by (simp add: dim_sample dim_key_def)
qed

text \<open>
  C3. With the dimension built from the same valid batch, the fact batch has one row for
  each valid record, in the same order; exactly one dimension row has the key of the
  record, and the fact row's \<^verbatim>\<open>product_id\<close> is the identifier of that dimension row and
  of no other.
\<close>

theorem fact_one_per_valid_record:
  "length (fact_sales clean (dim_product clean)) = length clean
   \<and> (\<forall>i<length clean.
         f_order_id (fact_sales clean (dim_product clean) ! i) = order_id (src (clean ! i))
         \<and> (\<exists>!d. d \<in> set (dim_product clean) \<and> dim_key d = row_key (src (clean ! i)))
         \<and> (\<forall>d\<in>set (dim_product clean).
               f_product_id (fact_sales clean (dim_product clean) ! i) = Some (product_id d)
               \<longleftrightarrow> dim_key d = row_key (src (clean ! i))))"
proof (intro conjI allI impI)
  show "length (fact_sales clean (dim_product clean)) = length clean"
    by (rule length_fact_sales)
next
  fix i assume i: "i < length clean"
  then have mem: "clean ! i \<in> set clean" by simp
  note m = match_dim_product [OF mem]
  show "f_order_id (fact_sales clean (dim_product clean) ! i) = order_id (src (clean ! i))"
    using i by (simp add: fact_sales_nth)
  show "\<exists>!d. d \<in> set (dim_product clean) \<and> dim_key d = row_key (src (clean ! i))"
    using m by blast
  show "\<forall>d\<in>set (dim_product clean).
          f_product_id (fact_sales clean (dim_product clean) ! i) = Some (product_id d)
          \<longleftrightarrow> dim_key d = row_key (src (clean ! i))"
  proof
    fix d assume d: "d \<in> set (dim_product clean)"
    have inj: "inj_on product_id (set (dim_product clean))"
      using distinct_product_ids by (simp add: distinct_map)
    have "product_id (match (dim_product clean) (clean ! i)) = product_id d
          \<longleftrightarrow> match (dim_product clean) (clean ! i) = d"
      using inj d m(1) by (auto dest: inj_onD)
    also have "\<dots> \<longleftrightarrow> dim_key d = row_key (src (clean ! i))"
      using m d by blast
    finally show "f_product_id (fact_sales clean (dim_product clean) ! i) = Some (product_id d)
          \<longleftrightarrow> dim_key d = row_key (src (clean ! i))"
      using i by (simp add: fact_sales_nth)
  qed
qed

text \<open>
  The witness for C3: the three clean records of the sample batch.
\<close>

theorem fact_one_per_valid_record_witness:
  "(2::nat) < length (with_total_amount Float64 (df_clean sample))
   \<and> length (fact_sales (with_total_amount Float64 (df_clean sample))
        (dim_product (with_total_amount Float64 (df_clean sample)))) = 3
   \<and> f_order_id (fact_sales (with_total_amount Float64 (df_clean sample))
        (dim_product (with_total_amount Float64 (df_clean sample))) ! 2) = 5
   \<and> map f_product_id (fact_sales (with_total_amount Float64 (df_clean sample))
        (dim_product (with_total_amount Float64 (df_clean sample)))) = [Some 1, Some 2, Some 1]"
proof -
  let ?c = "with_total_amount Float64 (df_clean sample)"
  have len: "length ?c = 3" unfolding clean_sample by simp
  note t = fact_one_per_valid_record [of ?c]
  have 1: "length (fact_sales ?c (dim_product ?c)) = 3"
    using t [THEN conjunct1] len by simp
  have a: "f_order_id (fact_sales ?c (dim_product ?c) ! 2) = order_id (src (?c ! 2))"
    using t [THEN conjunct2] len by simp
  have b: "order_id (src (?c ! 2)) = 5"
    unfolding clean_sample by (simp add: sample_def)
  have 2: "f_order_id (fact_sales ?c (dim_product ?c) ! 2) = 5"
    using a unfolding b .
  have 0: "(2::nat) < length ?c" using len by simp
  show ?thesis by (intro conjI) (rule 0 1 2 fact_sample)+
qed

text \<open>
  C5, as stated, fails: \<^verbatim>\<open>total_amount\<close> is the product of two \<^verbatim>\<open>int64\<close> columns, which
  wraps. For a price of \<open>2^62\<close> and a quantity of 4 the fact row holds 0, not \<open>2^64\<close>.
\<close>

theorem total_amount_exact_counterexample:
  "snd (transform_and_model_data all_ok empty_world big_batch) =
     Inr ([\<lparr>d_product = ''Pen'', d_category = ''Office'', d_price = Some 4611686018427387904,
            product_id = 1\<rparr>],
          [\<lparr>f_order_id = 1, f_transaction_date = ''2024-01-01'', f_customer_name = Some ''Ann'',
            f_product_id = Some 1, f_quantity = 4, f_total_amount = I64 0\<rparr>])
   \<and> I64 0 \<noteq> I64 (4611686018427387904 * 4)"
  by (simp add: transform_result big_batch_def df_quarantine_filter df_clean_filter all_ok_def
      total_dtype_def price_dtype_def quantity_dtype_def int_dtype_def python_ints_def
      result_dtype_def product_raises_def with_total_amount_def mul_cells_def int64_def
      dim_product_def drop_duplicates_def bool_index_def not_mask_def row_key_def dim_key_def
      enumerate_eq_zip fact_sales_def merge_left_def)

text \<open>
  C5, amended. Every fact row takes \<^verbatim>\<open>total_amount\<close> from the price and the quantity of
  its own source record (the clean record at the same position), not from the dimension
  row: it is the product of the two cells in the dtype of the product column. A missing
  price gives a missing total. When every price and quantity of the batch is present
  and in the \<^verbatim>\<open>int64\<close> range, the total is price times quantity reduced to the signed
  64-bit range, and so the exact product whenever that lies in the range. When a price
  of the batch is missing and every other cell is in the \<^verbatim>\<open>int64\<close> range, the total is
  the product of the two cells as doubles, and so the exact product whenever price,
  quantity and product are below \<open>2^53\<close> in absolute value.
\<close>

theorem total_amount_from_source_record:
  assumes "snd (transform_and_model_data e w df) = Inr (dim, fact_df)"
  shows "length fact_df = length (df_clean df)
    \<and> (\<forall>i<length fact_df.
          f_order_id (fact_df ! i) = order_id (df_clean df ! i)
          \<and> f_quantity (fact_df ! i) = quantity (df_clean df ! i)
          \<and> f_total_amount (fact_df ! i)
              = mul_cells (total_dtype df) (price (df_clean df ! i)) (quantity (df_clean df ! i))
          \<and> (price (df_clean df ! i) = None \<longrightarrow> f_total_amount (fact_df ! i) = NaN)
          \<and> (\<forall>p. price (df_clean df ! i) = Some p \<longrightarrow>
                ((\<forall>r\<in>set df. (\<exists>v. price r = Some v \<and> in_int64 v) \<and> in_int64 (quantity r)) \<longrightarrow>
                   f_total_amount (fact_df ! i) = I64 (int64 (p * quantity (df_clean df ! i)))
                   \<and> (in_int64 (p * quantity (df_clean df ! i)) \<longrightarrow>
                        f_total_amount (fact_df ! i) = I64 (p * quantity (df_clean df ! i))))
              \<and> ((\<exists>r\<in>set df. price r = None)
                   \<and> (\<forall>r\<in>set df. (\<forall>v. price r = Some v \<longrightarrow> in_int64 v) \<and> in_int64 (quantity r)) \<longrightarrow>
                   f_total_amount (fact_df ! i) = mul_double p (quantity (df_clean df ! i))
                   \<and> (\<bar>p\<bar> < 2 ^ 53 \<and> \<bar>quantity (df_clean df ! i)\<bar> < 2 ^ 53
                        \<and> \<bar>p * quantity (df_clean df ! i)\<bar> < 2 ^ 53 \<longrightarrow>
                        f_total_amount (fact_df ! i) = F64 (p * quantity (df_clean df ! i))))))"
proof -
  let ?c = "with_total_amount (total_dtype df) (df_clean df)"
  have f: "fact_df = fact_sales ?c (dim_product ?c)"
    using transform_Inr [OF assms] by simp
  have len: "length fact_df = length (df_clean df)"
    unfolding f by (simp add: length_fact_sales with_total_amount_def)
  have row: "f_order_id (fact_df ! i) = order_id (df_clean df ! i)
          \<and> f_quantity (fact_df ! i) = quantity (df_clean df ! i)
          \<and> f_total_amount (fact_df ! i)
              = mul_cells (total_dtype df) (price (df_clean df ! i)) (quantity (df_clean df ! i))"
    if "i < length (df_clean df)" for i
  proof -
    have i: "i < length ?c" using that by (simp add: with_total_amount_def)
    have n: "src (?c ! i) = df_clean df ! i"
      using that by (simp add: with_total_amount_def)
    show ?thesis
      unfolding f using fact_total_nth [OF that, of "total_dtype df"]
      by (simp add: fact_sales_nth [OF i] n)
  qed
  show ?thesis
  proof (intro conjI allI impI)
    show "length fact_df = length (df_clean df)" by (rule len)
  next
    fix i assume "i < length fact_df"
    then have i: "i < length (df_clean df)" using len by simp
    let ?q = "quantity (df_clean df ! i)"
    note r = row [OF i]
    show "f_order_id (fact_df ! i) = order_id (df_clean df ! i)" using r by blast
    show "f_quantity (fact_df ! i) = ?q" using r by blast
    show t: "f_total_amount (fact_df ! i)
              = mul_cells (total_dtype df) (price (df_clean df ! i)) ?q"
      using r by blast
    show "f_total_amount (fact_df ! i) = NaN" if "price (df_clean df ! i) = None"
      using t that by (simp add: mul_cells_def)
    show "f_total_amount (fact_df ! i) = I64 (int64 (p * ?q))"
      if "price (df_clean df ! i) = Some p"
         "\<forall>r\<in>set df. (\<exists>v. price r = Some v \<and> in_int64 v) \<and> in_int64 (quantity r)" for p
      using t that(1) total_dtype_int64_frame [OF that(2)] by (simp add: mul_cells_def)
    show "f_total_amount (fact_df ! i) = I64 (p * ?q)"
      if "price (df_clean df ! i) = Some p"
         "\<forall>r\<in>set df. (\<exists>v. price r = Some v \<and> in_int64 v) \<and> in_int64 (quantity r)"
         "in_int64 (p * ?q)" for p
      using t that(1,3) total_dtype_int64_frame [OF that(2)]
      by (simp add: mul_cells_def int64_id in_int64_def)
    show "f_total_amount (fact_df ! i) = mul_double p ?q"
      if "price (df_clean df ! i) = Some p"
         "(\<exists>r\<in>set df. price r = None)
          \<and> (\<forall>r\<in>set df. (\<forall>v. price r = Some v \<longrightarrow> in_int64 v) \<and> in_int64 (quantity r))" for p
      using t that(1) total_dtype_float64_frame [OF that(2) [THEN conjunct1] that(2) [THEN conjunct2]]
      by (simp add: mul_cells_def)
    show "f_total_amount (fact_df ! i) = F64 (p * ?q)"
      if "price (df_clean df ! i) = Some p"
         "(\<exists>r\<in>set df. price r = None)
          \<and> (\<forall>r\<in>set df. (\<forall>v. price r = Some v \<longrightarrow> in_int64 v) \<and> in_int64 (quantity r))"
         "\<bar>p\<bar> < 2 ^ 53 \<and> \<bar>?q\<bar> < 2 ^ 53 \<and> \<bar>p * ?q\<bar> < 2 ^ 53" for p
      using t that(1) total_dtype_float64_frame [OF that(2) [THEN conjunct1] that(2) [THEN conjunct2]]
        mul_double_small [of p ?q] that(3)
      by (simp add: mul_cells_def)
  qed
qed

text \<open>
  The witness for the amended C5: the second fact row of the dummy data, 25 times 2 in
  \<^verbatim>\<open>int64\<close>, and the first fact row of the sample batch, 3 times 2 in \<^verbatim>\<open>float64\<close>.
\<close>

theorem total_amount_from_source_record_witness:
  "snd (transform_and_model_data all_ok empty_world raw_data) = Inr (raw_dim, raw_fact)
   \<and> (1::nat) < length raw_fact
   \<and> price (df_clean raw_data ! 1) = Some 25
   \<and> list_all (\<lambda>r. (\<exists>v. price r = Some v \<and> in_int64 v) \<and> in_int64 (quantity r)) raw_data
   \<and> in_int64 (25 * quantity (df_clean raw_data ! 1))
   \<and> f_total_amount (raw_fact ! 1) = I64 (25 * quantity (df_clean raw_data ! 1))
   \<and> snd (transform_and_model_data all_ok empty_world sample) = Inr (sample_dim, sample_fact)
   \<and> (0::nat) < length sample_fact
   \<and> price (df_clean sample ! 0) = Some 3
   \<and> list_ex (\<lambda>r. price r = None) sample
   \<and> list_all (\<lambda>r. (case price r of None \<Rightarrow> True | Some v \<Rightarrow> in_int64 v)
                      \<and> in_int64 (quantity r)) sample
   \<and> \<bar>3 :: int\<bar> < 2 ^ 53 \<and> \<bar>quantity (df_clean sample ! 0)\<bar> < 2 ^ 53
   \<and> \<bar>3 * quantity (df_clean sample ! 0)\<bar> < 2 ^ 53
   \<and> f_total_amount (sample_fact ! 0) = F64 (3 * quantity (df_clean sample ! 0))"
proof -
  have ok: "quarantine_write_ok all_ok" by (simp add: all_ok_def)
  have t: "snd (transform_and_model_data all_ok empty_world raw_data) = Inr (raw_dim, raw_fact)"
    using ok by (rule transform_raw)
  have i: "(1::nat) < length raw_fact" by (simp add: raw_fact_def)
  have p: "price (df_clean raw_data ! 1) = Some 25"
    unfolding df_clean_raw_data by (simp add: raw_data_def)
  have q: "quantity (df_clean raw_data ! 1) = 2"
    unfolding df_clean_raw_data by (simp add: raw_data_def)
  have fr: "\<forall>r\<in>set raw_data. (\<exists>v. price r = Some v \<and> in_int64 v) \<and> in_int64 (quantity r)"
    by (simp add: raw_data_def in_int64_def)
  have r: "in_int64 (25 * quantity (df_clean raw_data ! 1))"
    unfolding q by (simp add: in_int64_def)
  have a: "f_total_amount (raw_fact ! 1) = I64 (25 * quantity (df_clean raw_data ! 1))"
    using total_amount_from_source_record [OF t] i p fr r by blast
  have t': "snd (transform_and_model_data all_ok empty_world sample) = Inr (sample_dim, sample_fact)"
    using ok by (rule transform_sample)
  have i': "(0::nat) < length sample_fact" by (simp add: sample_fact_def)
  have c: "df_clean sample = [sample ! 0, sample ! 2, sample ! 4]"
    by (simp add: sample_def df_clean_filter)
  have p': "price (df_clean sample ! 0) = Some 3"
    unfolding c by (simp add: sample_def)
  have q': "quantity (df_clean sample ! 0) = 2"
    unfolding c by (simp add: sample_def)
  have m: "\<exists>r\<in>set sample. price r = None" by (simp add: sample_def)
  have fr': "\<forall>r\<in>set sample. (\<forall>v. price r = Some v \<longrightarrow> in_int64 v) \<and> in_int64 (quantity r)"
    by (simp add: sample_def in_int64_def)
  have s: "\<bar>3 :: int\<bar> < 2 ^ 53" "\<bar>quantity (df_clean sample ! 0)\<bar> < 2 ^ 53"
          "\<bar>3 * quantity (df_clean sample ! 0)\<bar> < 2 ^ 53"
    unfolding q' by simp_all
  have b: "f_total_amount (sample_fact ! 0) = F64 (3 * quantity (df_clean sample ! 0))"
    using total_amount_from_source_record [OF t'] i' p' m fr' s by blast
  have fr0: "list_all (\<lambda>r. (\<exists>v. price r = Some v \<and> in_int64 v) \<and> in_int64 (quantity r)) raw_data"
    by (simp add: raw_data_def in_int64_def)
  have m0: "list_ex (\<lambda>r. price r = None) sample" by (simp add: sample_def)
  have fr0': "list_all (\<lambda>r. (case price r of None \<Rightarrow> True | Some v \<Rightarrow> in_int64 v)
                      \<and> in_int64 (quantity r)) sample"
    by (simp add: sample_def in_int64_def)
  show ?thesis
    by (intro conjI) (rule t i p fr0 r a t' i' p' m0 fr0' s b)+
qed

text \<open>
  C6. The stage is deterministic: what it returns for a batch does not depend on the
  world it starts in, and any two runs on the same batch that return at all return the
  same dimension and fact batches.
\<close>

theorem transform_deterministic:
  "snd (transform_and_model_data e w1 df) = snd (transform_and_model_data e w2 df)
   \<and> (snd (transform_and_model_data e1 w1 df) = Inr r1
        \<and> snd (transform_and_model_data e2 w2 df) = Inr r2 \<longrightarrow> r1 = r2)"
  by (auto simp: transform_result split: if_splits)

text \<open>
  The witness for C6: a second run, started in the world the first run left behind.
\<close>

theorem transform_deterministic_witness:
  "snd (transform_and_model_data all_ok empty_world raw_data) = Inr (raw_dim, raw_fact)
   \<and> snd (transform_and_model_data all_ok
            (fst (transform_and_model_data all_ok empty_world raw_data)) raw_data)
       = Inr (raw_dim, raw_fact)"
proof -
  have ok: "quarantine_write_ok all_ok" by (simp add: all_ok_def)
  have t: "snd (transform_and_model_data all_ok empty_world raw_data) = Inr (raw_dim, raw_fact)"
    using ok by (rule transform_raw)
  have "snd (transform_and_model_data all_ok empty_world raw_data)
        = snd (transform_and_model_data all_ok
            (fst (transform_and_model_data all_ok empty_world raw_data)) raw_data)"
    using transform_deterministic
      [of all_ok empty_world raw_data "fst (transform_and_model_data all_ok empty_world raw_data)"]
    by blast
  then show ?thesis using t by simp
qed

section \<open>Failures of the outside world\<close>

text \<open>
  C7. When the source cannot be read, \<^verbatim>\<open>extract_data\<close> returns nothing, and the run
  leaves the quarantine file and both tables as they were: it attempts no operation
  other than writing and reading the raw file, and neither the transform stage nor the
  load stage starts.
\<close>

theorem unreadable_source_writes_nothing:
  assumes "\<not> read_ok e"
  shows "snd (extract_data e w) = None
    \<and> quarantine_file (fst (main e w)) = quarantine_file w
    \<and> dim_table (fst (main e w)) = dim_table w
    \<and> fact_table (fst (main e w)) = fact_table w
    \<and> (\<exists>ops. io (fst (main e w)) = io w @ ops \<and> set ops \<subseteq> {WriteRaw, ReadRaw})
    \<and> (\<exists>es. log (fst (main e w)) = log w @ es
              \<and> InfoTransformStart \<notin> set es \<and> InfoLoadStart \<notin> set es)"
  using assms
  by (simp add: main_def generate_dummy_data_def extract_data_def read_csv_def
      logging_def attempt_def Let_def)

text \<open>
  The witness for C7: a failing read in a world that holds earlier tables.
\<close>

theorem unreadable_source_writes_nothing_witness:
  "\<not> read_ok read_fails
   \<and> snd (extract_data read_fails stale_world) = None
   \<and> quarantine_file (fst (main read_fails stale_world)) = Some []
   \<and> dim_table (fst (main read_fails stale_world)) = Some raw_dim
   \<and> fact_table (fst (main read_fails stale_world)) = Some []"
proof -
  have h: "\<not> read_ok read_fails" by (simp add: read_fails_def all_ok_def)
  show ?thesis
    using h unreadable_source_writes_nothing [OF h, of stale_world]
    by (simp add: stale_world_def empty_world_def)
qed

text \<open>
  C8, as stated, fails for the storage sink: \<^verbatim>\<open>load_data\<close> catches the failure of a
  table write, logs it and returns normally, so its caller is not told. Here the fact
  table cannot be written and the failing write leaves no table behind. \<^verbatim>\<open>load_data\<close>
  returns normally; the main block goes on to its report query, and the run ends with
  the error of that query, which finds no fact table.
\<close>

theorem storage_failure_surfaced_counterexample:
  "\<not> fact_write_ok fact_fails
   \<and> load_data fact_fails empty_world raw_dim raw_fact =
       (\<lparr>raw_file = None, quarantine_file = None, dim_table = Some raw_dim, fact_table = None,
         log = [InfoLoadStart, InfoLoadedDim, ErrorLoadingFailed],
         io = [Connect, WriteDim, WriteFact], stdout = []\<rparr>, Inr ())
   \<and> snd (main fact_fails empty_world) = Inl ReportQueryError"
proof -
  have e: "raw_write_ok fact_fails \<and> read_ok fact_fails \<and> quarantine_write_ok fact_fails"
    by (simp add: fact_fails_def all_ok_def)
  have l: "load_data fact_fails w raw_dim raw_fact =
       (w\<lparr>dim_table := Some raw_dim, fact_table := None,
          log := log w @ [InfoLoadStart, InfoLoadedDim, ErrorLoadingFailed],
          io := io w @ [Connect, WriteDim, WriteFact]\<rparr>, Inr ())" for w
    by (simp add: fact_fails_def all_ok_def load_data_def load_body_cases
        logging_def attempt_def)
  have r: "report_connect_ok fact_fails \<and> report_query_ok fact_fails"
    by (simp add: fact_fails_def all_ok_def)
  let ?w2 = "logging (InfoExtracted 6) (attempt ReadRaw (logging InfoExtractStart
                (logging InfoGenerated
                   ((attempt WriteRaw empty_world)\<lparr>raw_file := Some raw_data\<rparr>))))"
  have "snd (transform_and_model_data fact_fails ?w2 raw_data) = Inr (raw_dim, raw_fact)"
    using e by (simp add: transform_raw)
  then obtain w3 where t: "transform_and_model_data fact_fails ?w2 raw_data
                           = (w3, Inr (raw_dim, raw_fact))"
    by (cases "transform_and_model_data fact_fails ?w2 raw_data") simp
  have m: "snd (main fact_fails empty_world) = Inl ReportQueryError"
    using e r by (simp add: main_read_ok t l report_result)
  have n: "\<not> fact_write_ok fact_fails" by (simp add: fact_fails_def all_ok_def)
  have l0: "load_data fact_fails empty_world raw_dim raw_fact =
       (\<lparr>raw_file = None, quarantine_file = None, dim_table = Some raw_dim, fact_table = None,
         log = [InfoLoadStart, InfoLoadedDim, ErrorLoadingFailed],
         io = [Connect, WriteDim, WriteFact], stdout = []\<rparr>, Inr ())"
    unfolding l by (simp add: empty_world_def)
  show ?thesis by (intro conjI) (rule n l0 m)+
qed

text \<open>
  C8, amended. A failing quarantine write is raised out of the transform stage, and out of
  the run, after one attempt. A failing storage operation (connecting, writing the
  dimension table, writing the fact table) is attempted once; \<^verbatim>\<open>load_data\<close> logs
  the failure and returns normally, so that its caller, the main block, is not told and
  goes on to the report query. The run then ends normally when that query can connect
  and finds both tables, and with the query's own error otherwise; it never ends with
  the storage failure. Nothing is rolled back: a dimension table written before a
  failing fact write stays, the fact table is left as the failing write left it, and a
  quarantine file written before a failing load stays.
\<close>

theorem sink_failure_handling:
  "((df_quarantine df \<noteq> [] \<and> \<not> quarantine_write_ok e \<longrightarrow>
       snd (transform_and_model_data e w df) = Inl QuarantineWriteError
       \<and> io (fst (transform_and_model_data e w df)) = io w @ [WriteQuarantine])
    \<and> snd (load_data e w d f) = Inr ()
    \<and> (\<not> (connect_ok e \<and> dim_write_ok e \<and> fact_write_ok e) \<longrightarrow>
         (\<exists>es. log (fst (load_data e w d f)) = log w @ es @ [ErrorLoadingFailed]))
    \<and> (\<exists>ops. io (fst (load_data e w d f)) = io w @ ops \<and> distinct ops)
    \<and> (connect_ok e \<and> dim_write_ok e \<and> \<not> fact_write_ok e \<longrightarrow>
         dim_table (fst (load_data e w d f)) = Some d
         \<and> fact_table (fst (load_data e w d f)) = fact_left e (fact_table w))
    \<and> quarantine_file (fst (load_data e w d f)) = quarantine_file w)
   \<and> ((raw_write_ok e \<and> read_ok e \<and> quarantine_write_ok e \<longrightarrow>
         quarantine_file (fst (main e w)) = Some (df_quarantine raw_data)
         \<and> snd (main e w) =
             (if \<not> report_connect_ok e then Inl ReportConnectError
              else if \<not> report_query_ok e \<or> dim_table (fst (main e w)) = None
                      \<or> fact_table (fst (main e w)) = None
                then Inl ReportQueryError
              else Inr ()))
      \<and> (raw_write_ok e \<and> read_ok e \<and> \<not> quarantine_write_ok e \<longrightarrow>
         snd (main e w) = Inl QuarantineWriteError
         \<and> dim_table (fst (main e w)) = dim_table w
         \<and> fact_table (fst (main e w)) = fact_table w))"
  by (rule conjI) (rule load_sink_failures, rule main_sink_failures)

text \<open>
  The witness for the amended C8: a run where the fact table cannot be written, a run
  where the quarantine file cannot, and a run where the dimension table cannot be
  written into a database that holds both tables, which ends normally.
\<close>

theorem sink_failure_handling_witness:
  "connect_ok fact_fails \<and> dim_write_ok fact_fails \<and> \<not> fact_write_ok fact_fails
   \<and> dim_table (fst (load_data fact_fails empty_world raw_dim raw_fact)) = Some raw_dim
   \<and> raw_write_ok quarantine_fails \<and> read_ok quarantine_fails
   \<and> \<not> quarantine_write_ok quarantine_fails
   \<and> snd (main quarantine_fails empty_world) = Inl QuarantineWriteError
   \<and> raw_write_ok dim_fails \<and> read_ok dim_fails \<and> quarantine_write_ok dim_fails
   \<and> \<not> dim_write_ok dim_fails
   \<and> dim_table (fst (main dim_fails stale_world)) = Some raw_dim
   \<and> fact_table (fst (main dim_fails stale_world)) = Some []
   \<and> snd (main dim_fails stale_world) = Inr ()"
proof -
  have h1: "connect_ok fact_fails \<and> dim_write_ok fact_fails \<and> \<not> fact_write_ok fact_fails"
    by (simp add: fact_fails_def all_ok_def)
  have h2: "raw_write_ok quarantine_fails \<and> read_ok quarantine_fails
            \<and> \<not> quarantine_write_ok quarantine_fails"
    by (simp add: quarantine_fails_def all_ok_def)
  have h3: "raw_write_ok dim_fails \<and> read_ok dim_fails \<and> quarantine_write_ok dim_fails"
    by (simp add: dim_fails_def all_ok_def)
  have h4: "\<not> dim_write_ok dim_fails" by (simp add: dim_fails_def all_ok_def)
  have h5: "report_connect_ok dim_fails \<and> report_query_ok dim_fails"
    by (simp add: dim_fails_def all_ok_def)
  have 1: "dim_table (fst (load_data fact_fails empty_world raw_dim raw_fact)) = Some raw_dim"
    using h1 sink_failure_handling [of raw_data fact_fails empty_world raw_dim raw_fact] by blast
  have 2: "snd (main quarantine_fails empty_world) = Inl QuarantineWriteError"
    using h2 sink_failure_handling [of raw_data quarantine_fails empty_world raw_dim raw_fact]
    by blast
  have l: "dim_table (fst (load_data dim_fails w raw_dim raw_fact)) = dim_table w
           \<and> fact_table (fst (load_data dim_fails w raw_dim raw_fact)) = fact_table w" for w
    by (simp add: dim_fails_def all_ok_def load_data_def load_body_cases logging_def attempt_def)
  let ?w2 = "logging (InfoExtracted 6) (attempt ReadRaw (logging InfoExtractStart
                (logging InfoGenerated
                   ((attempt WriteRaw stale_world)\<lparr>raw_file := Some raw_data\<rparr>))))"
  have "snd (transform_and_model_data dim_fails ?w2 raw_data) = Inr (raw_dim, raw_fact)"
    using h3 by (simp add: transform_raw)
  then obtain w3 where t: "transform_and_model_data dim_fails ?w2 raw_data
                           = (w3, Inr (raw_dim, raw_fact))"
    by (cases "transform_and_model_data dim_fails ?w2 raw_data") simp
  have w3: "w3 = fst (transform_and_model_data dim_fails ?w2 raw_data)" by (simp add: t)
  have tabs: "dim_table w3 = Some raw_dim \<and> fact_table w3 = Some []"
    unfolding w3 using h3
    by (simp add: transform_world df_quarantine_raw_data logging_def attempt_def
        stale_world_def empty_world_def)
  obtain w4 where ld: "load_data dim_fails w3 raw_dim raw_fact = (w4, Inr ())"
    using load_data_returns [of dim_fails w3 raw_dim raw_fact]
    by (cases "load_data dim_fails w3 raw_dim raw_fact") simp
  have w4: "dim_table w4 = Some raw_dim \<and> fact_table w4 = Some []"
    using l [of w3] tabs by (simp add: ld)
  have m: "main dim_fails stale_world = report dim_fails w4"
    using h3 by (simp add: main_read_ok t ld)
  have 3: "dim_table (fst (main dim_fails stale_world)) = Some raw_dim"
    and 4: "fact_table (fst (main dim_fails stale_world)) = Some []"
    unfolding m using w4 by (simp_all add: report_keeps)
  have 5: "snd (main dim_fails stale_world) = Inr ()"
    using h3 h5 3 4 sink_failure_handling [of raw_data dim_fails stale_world raw_dim raw_fact]
    by simp
  show ?thesis
    by (intro conjI) (rule h1 [THEN conjunct1] h1 [THEN conjunct2, THEN conjunct1]
        h1 [THEN conjunct2, THEN conjunct2] 1 h2 [THEN conjunct1]
        h2 [THEN conjunct2, THEN conjunct1] h2 [THEN conjunct2, THEN conjunct2] 2
        h3 [THEN conjunct1] h3 [THEN conjunct2, THEN conjunct1]
        h3 [THEN conjunct2, THEN conjunct2] h4 3 4 5)+
qed

end
